theory Spec2Isabelle
  imports Complex_Main
begin

section \<open>Numbers\<close>

text \<open>
  Prices reach the program as Python floats, that is IEEE 754 binary64 numbers. A finite
  float is modelled by its exact value, a rational number. Comparison of floats, and of a
  float with an integer, is comparison of values. Every other operation computes the exact
  result and rounds it to the nearest float, a tie going to the even mantissa:
  \<open>float_of\<close> does the rounding, to 53 significant bits, or to a multiple of \<open>2^-1074\<close>
  for the smallest numbers. So \<open>float_of (1001 / 100)\<close> is the float that Python reads
  from \<open>10.01\<close>, and \<open>float_sub\<close> is the subtraction of two floats. Infinities and NaN
  are left out: no price is one, and no difference of prices leaves the finite range.

  \<open>round(x, n)\<close> takes the exact value of the float \<open>x\<close>, rounds it to \<open>n\<close> decimal
  places, a tie going to the even digit, and returns the float nearest to that decimal.

  Sizes, share counts and time stamps (in nanoseconds) are Python integers, and the
  factor \<open>1.8\<close> of the order-book test is the rational 18/10; for the sizes of the
  session below, the float product of the size and the float 1.8 is that exact product.
\<close>

definition round_half_even :: "rat \<Rightarrow> int" where
  "round_half_even x =
     (let f = \<lfloor>x\<rfloor>; r = x - of_int f
      in if r < 1 / 2 then f
         else if 1 / 2 < r then f + 1
         else if even f then f else f + 1)"

text \<open>The position of the leading bit: \<open>ilog2 n\<close> is the largest \<open>k\<close> with \<open>2^k \<le> n\<close>.\<close>

fun ilog2 :: "nat \<Rightarrow> nat" where
  "ilog2 n = (if n < 2 then 0 else Suc (ilog2 (n div 2)))"

declare ilog2.simps [simp del]

text \<open>The binary exponent of \<open>x \<noteq> 0\<close>: the \<open>e\<close> with \<open>2^e \<le> |x| < 2^(e+1)\<close>.\<close>

definition exponent :: "rat \<Rightarrow> int" where
  "exponent x =
     (if 1 \<le> \<bar>x\<bar> then int (ilog2 (nat \<lfloor>\<bar>x\<bar>\<rfloor>))
      else - int (Suc (ilog2 (nat \<lceil>1 / \<bar>x\<bar>\<rceil> - 1))))"

definition pow2 :: "int \<Rightarrow> rat" where
  "pow2 e = (if 0 \<le> e then 2 ^ nat e else 1 / 2 ^ nat (- e))"

definition float_of :: "rat \<Rightarrow> rat" where
  "float_of x =
     (if x = 0 then 0
      else let e = max (exponent x - 52) (- 1074)
           in of_int (round_half_even (x / pow2 e)) * pow2 e)"

definition float_sub :: "rat \<Rightarrow> rat \<Rightarrow> rat" where
  "float_sub x y = float_of (x - y)"

definition py_round :: "rat \<Rightarrow> nat \<Rightarrow> rat" where
  "py_round x ndigits =
     float_of (of_int (round_half_even (x * 10 ^ ndigits)) / 10 ^ ndigits)"

text \<open>\<open>pd.Timedelta(np.timedelta64(50, 'ms'))\<close>, in nanoseconds.\<close>

definition timedelta_50ms :: int where
  "timedelta_50ms = 50000000"

section \<open>Messages of the stream and of the order gateway\<close>

record stream_data =
  symbol :: string
  timestamp :: int

record quote_data = stream_data +
  bidprice :: rat
  askprice :: rat
  bidsize :: int
  asksize :: int

text \<open>The field \<open>size\<close> of a trade message is called \<open>trade_size\<close> here.\<close>

record trade_data = stream_data +
  price :: rat
  trade_size :: int

text \<open>
  An order update carries \<open>data.event\<close> and, of \<open>data.order\<close>, the fields the handler
  reads; \<open>filled_qty\<close> is the value of \<open>int(data.order['filled_qty'])\<close>.
\<close>

record order_update =
  event :: string
  order_id :: string
  side :: string
  filled_qty :: int

datatype exn = KeyError string | APIError string

text \<open>
  What a handler does to the outside, in order: the lines it prints and the calls it makes
  to the REST API. An order is always a day limit order; its fields here are symbol,
  quantity, side and limit price.
\<close>

datatype effect =
    PrintLevelChange string rat rat rat rat rat rat
  | SubmitOrder string int string rat
  | CancelOrder string
  | PrintBuy string rat
  | PrintSell string rat
  | PrintExn exn

text \<open>
  The REST API is outside the program. How it answers during one run of a handler is an
  input of the model: \<open>submit_order\<close> returns the new order's id or raises, and
  \<open>cancel_order\<close> returns or raises.
\<close>

record api =
  submit_order :: "string \<Rightarrow> int \<Rightarrow> string \<Rightarrow> rat \<Rightarrow> exn + string"
  cancel_order :: "string \<Rightarrow> exn + unit"

section \<open>class Quote\<close>

text \<open>The eleven keys of a symbol's dictionary.\<close>

record symdict =
  prev_bid :: rat
  prev_ask :: rat
  prev_spread :: rat
  bid :: rat
  ask :: rat
  bid_size :: int
  ask_size :: int
  spread :: rat
  traded :: bool
  level_ct :: int
  time :: int

text \<open>
  Python dictionaries are objects: a variable or a dictionary entry holds a reference, and
  an assignment \<open>d['k'] = v\<close> changes the object for every holder of the reference. A
  \<open>Quote\<close> object is therefore a small store: \<open>dicts\<close> gives the contents of each
  dictionary object by address, \<open>symbol_dict\<close> maps a symbol to the address of its
  dictionary, \<open>default_dict\<close> is the address of the object built in \<open>__init__\<close>, and
  \<open>next_ref\<close> is the next free address.
\<close>

type_synonym ref = nat

record Quote =
  dicts :: "ref \<Rightarrow> symdict"
  symbol_dict :: "string \<rightharpoonup> ref"
  default_dict :: ref
  next_ref :: ref

definition default_values :: symdict where
  "default_values =
     \<lparr>prev_bid = 0, prev_ask = 0, prev_spread = 0, bid = 0, ask = 0,
      bid_size = 0, ask_size = 0, spread = 0, traded = True, level_ct = 1, time = 0\<rparr>"

definition Quote_init :: Quote where
  "Quote_init =
     \<lparr>dicts = (\<lambda>_. default_values), symbol_dict = Map.empty,
      default_dict = 0, next_ref = 1\<rparr>"

text \<open>An assignment through the reference \<open>r\<close>.\<close>

definition assign :: "ref \<Rightarrow> (symdict \<Rightarrow> symdict) \<Rightarrow> Quote \<Rightarrow> Quote" where
  "assign r f q = q\<lparr>dicts := (dicts q)(r := f (dicts q r))\<rparr>"

text \<open>
  \<open>get_symbol_dict\<close> returns a reference. For a symbol that is not yet a key it returns
  \<open>self.default_dict\<close> itself, and stores that same reference under the symbol.
\<close>

definition get_symbol_dict :: "Quote \<Rightarrow> string \<Rightarrow> ref \<times> Quote" where
  "get_symbol_dict q smb =
     (case symbol_dict q smb of
        Some r \<Rightarrow> (r, q)
      | None \<Rightarrow> (default_dict q, q\<lparr>symbol_dict := (symbol_dict q)(smb \<mapsto> default_dict q)\<rparr>))"

text \<open>
  \<open>self.symbol_dict[symbol].update(update_dict)\<close>: every key of \<open>update_dict\<close> is copied
  into the symbol's dictionary. \<open>symbol_dict\<close> is a \<open>defaultdict(dict)\<close>, so a missing
  symbol would first get a new dictionary of its own.
\<close>

definition update_symbol_dict :: "Quote \<Rightarrow> string \<Rightarrow> ref \<Rightarrow> Quote" where
  "update_symbol_dict q smb update_dict =
     (case symbol_dict q smb of
        Some r \<Rightarrow> q\<lparr>dicts := (dicts q)(r := dicts q update_dict)\<rparr>
      | None \<Rightarrow>
          q\<lparr>dicts := (dicts q)(next_ref q := dicts q update_dict),
            symbol_dict := (symbol_dict q)(smb \<mapsto> next_ref q),
            next_ref := Suc (next_ref q)\<rparr>)"

definition reset_dict :: "Quote \<Rightarrow> ref \<Rightarrow> ref \<times> Quote" where
  "reset_dict q r =
     (let q = assign r (\<lambda>d. d\<lparr>traded := False\<rparr>) q;
          q = assign r (\<lambda>d. d\<lparr>level_ct := level_ct d + 1\<rparr>) q
      in (r, q))"

text \<open>
  The test of \<open>update\<close> for a level change, on the symbol's dictionary \<open>d\<close>; its last
  part is \<open>round(data.askprice - data.bidprice, 2) == .01\<close>.
\<close>

definition level_change :: "symdict \<Rightarrow> quote_data \<Rightarrow> bool" where
  "level_change d data \<longleftrightarrow>
     bid d \<noteq> bidprice data \<and> ask d \<noteq> askprice data
     \<and> py_round (float_sub (askprice data) (bidprice data)) 2 = float_of (1 / 100)"

definition update :: "Quote \<Rightarrow> quote_data \<Rightarrow> Quote \<times> effect list" where
  "update q data =
     (let smb = symbol data;
          (r, q) = get_symbol_dict q smb;
          q = assign r (\<lambda>d. d\<lparr>bid_size := bidsize data\<rparr>) q;
          q = assign r (\<lambda>d. d\<lparr>ask_size := asksize data\<rparr>) q;
          (r, q, out) =
            (if level_change (dicts q r) data then
               let q = assign r (\<lambda>d. d\<lparr>prev_bid := bid d\<rparr>) q;
                   q = assign r (\<lambda>d. d\<lparr>prev_ask := ask d\<rparr>) q;
                   q = assign r (\<lambda>d. d\<lparr>bid := bidprice data\<rparr>) q;
                   q = assign r (\<lambda>d. d\<lparr>ask := askprice data\<rparr>) q;
                   q = assign r (\<lambda>d. d\<lparr>time := timestamp data\<rparr>) q;
                   q = assign r (\<lambda>d. d\<lparr>prev_spread := py_round (float_sub (prev_ask d) (prev_bid d)) 3\<rparr>) q;
                   q = assign r (\<lambda>d. d\<lparr>spread := py_round (float_sub (ask d) (bid d)) 3\<rparr>) q;
                   d = dicts q r;
                   out = [PrintLevelChange smb (prev_bid d) (prev_ask d) (prev_spread d)
                            (bid d) (ask d) (spread d)];
                   (r, q) = (if prev_spread (dicts q r) = float_of (1 / 100) then reset_dict q r else (r, q))
               in (r, q, out)
             else (r, q, []))
      in (update_symbol_dict q smb r, out))"

text \<open>
  What the program finds stored for a symbol: the dictionary that \<open>get_symbol_dict\<close>
  hands out for it.
\<close>

definition stored :: "Quote \<Rightarrow> string \<Rightarrow> symdict" where
  "stored q smb = (let (r, q') = get_symbol_dict q smb in dicts q' r)"

section \<open>class Position\<close>

record Position =
  orders_filled_amount :: "string \<rightharpoonup> int"
  pending_buy_shares :: int
  pending_sell_shares :: int
  total_shares :: int

definition Position_init :: Position where
  "Position_init =
     \<lparr>orders_filled_amount = Map.empty, pending_buy_shares = 0,
      pending_sell_shares = 0, total_shares = 0\<rparr>"

definition update_pending_buy_shares :: "Position \<Rightarrow> int \<Rightarrow> Position" where
  "update_pending_buy_shares p quantity =
     p\<lparr>pending_buy_shares := pending_buy_shares p + quantity\<rparr>"

definition update_pending_sell_shares :: "Position \<Rightarrow> int \<Rightarrow> Position" where
  "update_pending_sell_shares p quantity =
     p\<lparr>pending_sell_shares := pending_sell_shares p + quantity\<rparr>"

definition update_total_shares :: "Position \<Rightarrow> int \<Rightarrow> Position" where
  "update_total_shares p quantity = p\<lparr>total_shares := total_shares p + quantity\<rparr>"

text \<open>
  Both methods below start with \<open>self.orders_filled_amount[order_id]\<close>, which raises
  \<open>KeyError\<close> for a missing key, before anything is changed.
\<close>

definition update_filled_amount :: "Position \<Rightarrow> string \<Rightarrow> int \<Rightarrow> string \<Rightarrow> exn + Position" where
  "update_filled_amount p oid new_amount sd =
     (case orders_filled_amount p oid of
        None \<Rightarrow> Inl (KeyError oid)
      | Some old_amount \<Rightarrow>
          Inr (if new_amount > old_amount then
                 let p = (if sd = ''buy'' then
                            update_total_shares
                              (update_pending_buy_shares p (old_amount - new_amount))
                              (new_amount - old_amount)
                          else
                            update_total_shares
                              (update_pending_sell_shares p (old_amount - new_amount))
                              (old_amount - new_amount))
                 in p\<lparr>orders_filled_amount := (orders_filled_amount p)(oid \<mapsto> new_amount)\<rparr>
               else p))"

definition remove_pending_order :: "Position \<Rightarrow> string \<Rightarrow> string \<Rightarrow> exn + Position" where
  "remove_pending_order p oid sd =
     (case orders_filled_amount p oid of
        None \<Rightarrow> Inl (KeyError oid)
      | Some old_amount \<Rightarrow>
          Inr (let p = (if sd = ''buy'' then update_pending_buy_shares p (old_amount - 100)
                        else update_pending_sell_shares p (old_amount - 100))
               in p\<lparr>orders_filled_amount := (orders_filled_amount p)(oid := None)\<rparr>))"

section \<open>The handlers of \<open>run\<close>\<close>

definition on_quote :: "Quote \<Rightarrow> quote_data \<Rightarrow> Quote \<times> effect list" where
  "on_quote q data = update q data"

text \<open>The two tests on the order book and the position that guard an order.\<close>

definition buy_signal :: "int \<Rightarrow> symdict \<Rightarrow> Position \<Rightarrow> trade_data \<Rightarrow> bool" where
  "buy_signal max_shares d position data \<longleftrightarrow>
     price data = ask d
     \<and> of_int (bid_size d) > of_int (ask_size d) * (18 / 10 :: rat)
     \<and> total_shares position + pending_buy_shares position < max_shares - 100"

definition sell_signal :: "symdict \<Rightarrow> Position \<Rightarrow> trade_data \<Rightarrow> bool" where
  "sell_signal d position data \<longleftrightarrow>
     price data = bid d
     \<and> of_int (ask_size d) > of_int (bid_size d) * (18 / 10 :: rat)
     \<and> total_shares position - pending_sell_shares position \<ge> 100"

text \<open>
  The body of one \<open>try\<close> block of \<open>on_trade\<close>: submit, cancel, and only then the
  book-keeping. An exception of either call leaves the block at once and is printed by the
  \<open>except\<close> clause. \<open>r\<close> is the symbol's dictionary, \<open>quote.symbol_dict[symbol]\<close>.
\<close>

definition try_order ::
  "api \<Rightarrow> Quote \<times> Position \<Rightarrow> ref \<Rightarrow> string \<Rightarrow> string \<Rightarrow> rat \<Rightarrow> (Quote \<times> Position) \<times> effect list"
where
  "try_order gw st r smb sd limit_price =
     (let (quote, position) = st in
      case submit_order gw smb 100 sd limit_price of
        Inl e \<Rightarrow> ((quote, position), [SubmitOrder smb 100 sd limit_price, PrintExn e])
      | Inr oid \<Rightarrow>
          (case cancel_order gw oid of
             Inl e \<Rightarrow>
               ((quote, position),
                [SubmitOrder smb 100 sd limit_price, CancelOrder oid, PrintExn e])
           | Inr _ \<Rightarrow>
               let position = (if sd = ''buy'' then update_pending_buy_shares position 100
                               else update_pending_sell_shares position 100);
                   position = position\<lparr>orders_filled_amount :=
                                (orders_filled_amount position)(oid \<mapsto> 0)\<rparr>;
                   line = (if sd = ''buy'' then PrintBuy smb limit_price
                           else PrintSell smb limit_price);
                   quote = assign r (\<lambda>d. d\<lparr>traded := True\<rparr>) quote
               in ((quote, position),
                   [SubmitOrder smb 100 sd limit_price, CancelOrder oid, line])))"

text \<open>
  \<open>on_trade\<close>. After the call of \<open>get_symbol_dict\<close> the symbol is a key, and
  \<open>quote.symbol_dict[symbol]\<close> is the reference \<open>r\<close> that the call returned.
\<close>

definition on_trade ::
  "int \<Rightarrow> api \<Rightarrow> Quote \<times> Position \<Rightarrow> trade_data \<Rightarrow> (Quote \<times> Position) \<times> effect list"
where
  "on_trade max_shares gw st data =
     (let (quote, position) = st;
          smb = symbol data;
          (r, quote) = get_symbol_dict quote smb;
          d = dicts quote r
      in if traded d then ((quote, position), [])
         else if timestamp data \<le> time d + timedelta_50ms then ((quote, position), [])
         else if trade_size data \<ge> 100 then
           (if buy_signal max_shares d position data then
              try_order gw (quote, position) r smb ''buy'' (ask d)
            else if sell_signal d position data then
              try_order gw (quote, position) r smb ''sell'' (bid d)
            else ((quote, position), []))
         else ((quote, position), []))"

text \<open>
  \<open>on_trade_updates\<close>. Nothing catches a \<open>KeyError\<close> here: the handler ends with the
  exception, and the position object stays as it was when the exception was raised.
\<close>

definition on_trade_updates :: "Position \<Rightarrow> order_update \<Rightarrow> exn \<times> Position + Position" where
  "on_trade_updates position data =
     (if event data = ''fill'' then
        let position = (if side data = ''buy'' then
                          update_total_shares position (filled_qty data)
                        else update_total_shares position (-1 * filled_qty data))
        in (case remove_pending_order position (order_id data) (side data) of
              Inl e \<Rightarrow> Inl (e, position)
            | Inr p \<Rightarrow> Inr p)
      else if event data = ''partial_fill'' then
        (case update_filled_amount position (order_id data) (filled_qty data) (side data) of
           Inl e \<Rightarrow> Inl (e, position)
         | Inr p \<Rightarrow> Inr p)
      else if event data = ''canceled'' \<or> event data = ''rejected'' then
        (case remove_pending_order position (order_id data) (side data) of
           Inl e \<Rightarrow> Inl (e, position)
         | Inr p \<Rightarrow> Inr p)
      else Inr position)"

text \<open>Order updates handled one after the other, up to the first that raises.\<close>

fun on_trade_updates_all :: "Position \<Rightarrow> order_update list \<Rightarrow> exn \<times> Position + Position" where
  "on_trade_updates_all position [] = Inr position"
| "on_trade_updates_all position (u # us) =
     (case on_trade_updates position u of
        Inl e \<Rightarrow> Inl e
      | Inr p \<Rightarrow> on_trade_updates_all p us)"

section \<open>Notions used in the statements\<close>

text \<open>
  \<open>on_trade\<close> returns at once while \<open>traded\<close> is set: a symbol may trigger an order
  exactly when the flag is clear.
\<close>

definition eligible :: "symdict \<Rightarrow> bool" where
  "eligible d \<longleftrightarrow> \<not> traded d"

text \<open>The dictionary that \<open>update\<close> leaves behind when it has seen a level change.\<close>

definition new_level :: "symdict \<Rightarrow> quote_data \<Rightarrow> symdict" where
  "new_level d data =
     (let d = d\<lparr>prev_bid := bid d, prev_ask := ask d, bid := bidprice data,
                 ask := askprice data, time := timestamp data,
                 prev_spread := py_round (float_sub (ask d) (bid d)) 3,
                 spread := py_round (float_sub (askprice data) (bidprice data)) 3\<rparr>
      in if prev_spread d = float_of (1 / 100) then d\<lparr>traded := False, level_ct := level_ct d + 1\<rparr>
         else d)"

text \<open>The orders that a handler has sent, among its effects.\<close>

fun order_attempts :: "effect list \<Rightarrow> effect list" where
  "order_attempts [] = []"
| "order_attempts (SubmitOrder smb qty sd lp # es) = SubmitOrder smb qty sd lp # order_attempts es"
| "order_attempts (_ # es) = order_attempts es"

text \<open>The position object after \<open>on_trade_updates\<close>, whether it returned or raised.\<close>

fun position_after :: "exn \<times> Position + Position \<Rightarrow> Position" where
  "position_after (Inl (e, p)) = p"
| "position_after (Inr p) = p"

text \<open>
  Every key of \<open>symbol_dict\<close> holds the reference of the one dictionary built in
  \<open>__init__\<close>. \<open>get_symbol_dict\<close> is the only place that adds a key, and it adds that
  reference, so this holds from \<open>Quote()\<close> on.
\<close>

definition shared :: "Quote \<Rightarrow> bool" where
  "shared q \<longleftrightarrow> (\<forall>s r. symbol_dict q s = Some r \<longrightarrow> r = default_dict q)"

section \<open>A session with two symbols\<close>

text \<open>
  Two quotes for B at one-cent spreads, a quote for A, and a trade print for A at B's ask
  60 ms after B's second quote. The gateway either accepts everything, or accepts the
  order and fails the cancel.
\<close>

text \<open>The floats that Python reads from 10.00, 10.01, 10.015, 10.02, 20.00 and 20.01.\<close>

definition usd_10_00 :: rat where
  "usd_10_00 = float_of (1000 / 100)"

definition usd_10_01 :: rat where
  "usd_10_01 = float_of (1001 / 100)"

definition usd_10_015 :: rat where
  "usd_10_015 = float_of (10015 / 1000)"

definition usd_10_02 :: rat where
  "usd_10_02 = float_of (1002 / 100)"

definition usd_20_00 :: rat where
  "usd_20_00 = float_of (2000 / 100)"

definition usd_20_01 :: rat where
  "usd_20_01 = float_of (2001 / 100)"

definition quote_B1 :: quote_data where
  "quote_B1 = \<lparr>symbol = ''B'', timestamp = 1000000000, bidprice = usd_10_00,
                askprice = usd_10_01, bidsize = 300, asksize = 100\<rparr>"

definition quote_B2 :: quote_data where
  "quote_B2 = \<lparr>symbol = ''B'', timestamp = 2000000000, bidprice = usd_10_01,
                askprice = usd_10_02, bidsize = 300, asksize = 100\<rparr>"

definition quote_A :: quote_data where
  "quote_A = \<lparr>symbol = ''A'', timestamp = 3000000000, bidprice = usd_20_00,
               askprice = usd_20_01, bidsize = 5, asksize = 7\<rparr>"

definition trade_A :: trade_data where
  "trade_A = \<lparr>symbol = ''A'', timestamp = 2060000000, price = usd_10_02, trade_size = 150\<rparr>"

definition trade_B :: trade_data where
  "trade_B = \<lparr>symbol = ''B'', timestamp = 2060000000, price = usd_10_02, trade_size = 150\<rparr>"

definition gw_ok :: api where
  "gw_ok = \<lparr>submit_order = (\<lambda>smb qty sd lp. Inr ''o1''), cancel_order = (\<lambda>oid. Inr ())\<rparr>"

definition gw_cancel_fails :: api where
  "gw_cancel_fails =
     \<lparr>submit_order = (\<lambda>smb qty sd lp. Inr ''o1''),
      cancel_order = (\<lambda>oid. Inl (APIError ''order is not cancelable''))\<rparr>"

definition after_B1 :: Quote where
  "after_B1 = fst (on_quote Quote_init quote_B1)"

definition after_B2 :: Quote where
  "after_B2 = fst (on_quote after_B1 quote_B2)"

definition after_B1_A :: Quote where
  "after_B1_A = fst (on_quote after_B1 quote_A)"

text \<open>
  Later in the session: a third quote for B with the same prices and the sizes reversed,
  a trade print for B at the bid, and a position of 100 shares.
\<close>

definition quote_B3 :: quote_data where
  "quote_B3 = \<lparr>symbol = ''B'', timestamp = 2010000000, bidprice = usd_10_01,
                askprice = usd_10_02, bidsize = 100, asksize = 300\<rparr>"

text \<open>A quote for B, after its first, with a spread of half a cent.\<close>

definition quote_B_half :: quote_data where
  "quote_B_half = \<lparr>symbol = ''B'', timestamp = 2000000000, bidprice = usd_10_01,
                    askprice = usd_10_015, bidsize = 300, asksize = 100\<rparr>"

definition after_B3 :: Quote where
  "after_B3 = fst (on_quote after_B2 quote_B3)"

definition trade_B_bid :: trade_data where
  "trade_B_bid =
     \<lparr>symbol = ''B'', timestamp = 2060000000, price = usd_10_01, trade_size = 150\<rparr>"

definition holding_100 :: Position where
  "holding_100 = Position_init\<lparr>total_shares := 100\<rparr>"

text \<open>
  The order for B that follows the trade print, as the accepting gateway registers it, and
  the updates that the gateway then reports for it: 40 shares filled, 70 shares filled,
  and the fill of all 100.
\<close>

definition submitted :: Position where
  "submitted = snd (fst (on_trade 500 gw_ok (after_B2, Position_init) trade_B))"

definition partial_40 :: order_update where
  "partial_40 = \<lparr>event = ''partial_fill'', order_id = ''o1'', side = ''buy'', filled_qty = 40\<rparr>"

definition partial_70 :: order_update where
  "partial_70 = \<lparr>event = ''partial_fill'', order_id = ''o1'', side = ''buy'', filled_qty = 70\<rparr>"

definition fill_100 :: order_update where
  "fill_100 = \<lparr>event = ''fill'', order_id = ''o1'', side = ''buy'', filled_qty = 100\<rparr>"

definition partly_filled :: Position where
  "partly_filled = position_after (on_trade_updates submitted partial_40)"

text \<open>An update for an order that was never registered.\<close>

definition fill_unknown :: order_update where
  "fill_unknown = \<lparr>event = ''fill'', order_id = ''o9'', side = ''buy'', filled_qty = 100\<rparr>"

section \<open>The store\<close>

lemma get_symbol_dict_key:
  "get_symbol_dict q smb = (r, q') \<Longrightarrow> symbol_dict q' smb = Some r \<and> dicts q' = dicts q"
  by (auto simp: get_symbol_dict_def split: option.splits)

lemma stored_get:
  "get_symbol_dict q smb = (r, q') \<Longrightarrow> stored q smb = dicts q r"
  by (auto simp: stored_def get_symbol_dict_def split: option.splits)

lemma stored_registered:
  "symbol_dict q smb = Some r \<Longrightarrow> stored q smb = dicts q r"
  by (simp add: stored_def get_symbol_dict_def)

lemma stored_unregistered:
  "symbol_dict q smb = None \<Longrightarrow> stored q smb = dicts q (default_dict q)"
  by (simp add: stored_def get_symbol_dict_def)

lemma get_symbol_dict_registered:
  "symbol_dict q smb = Some r \<Longrightarrow> get_symbol_dict q smb = (r, q)"
  by (simp add: get_symbol_dict_def)

lemma stored_after_get:
  "stored (snd (get_symbol_dict q smb)) s = stored q s"
  by (simp add: stored_def get_symbol_dict_def split: option.splits)

lemma assign_at:
  "assign r f (q\<lparr>dicts := h(r := x)\<rparr>) = q\<lparr>dicts := h(r := f x)\<rparr>"
  by (simp add: assign_def)

lemma update_symbol_dict_at:
  "symbol_dict q smb = Some r \<Longrightarrow>
     update_symbol_dict (q\<lparr>dicts := h\<rparr>) smb r = q\<lparr>dicts := h\<rparr>"
  by (simp add: update_symbol_dict_def)

section \<open>\<open>Quote.update\<close>\<close>

text \<open>
  One call of \<open>update\<close> rewrites the dictionary behind the symbol's reference, and nothing
  else of the store.
\<close>

lemma update_via_ref:
  assumes "get_symbol_dict q (symbol data) = (r, q1)"
  shows "update q data =
           (let d = (dicts q r)\<lparr>bid_size := bidsize data, ask_size := asksize data\<rparr>
            in if level_change d data
               then (q1\<lparr>dicts := (dicts q)(r := new_level d data)\<rparr>,
                     [PrintLevelChange (symbol data) (bid d) (ask d) (py_round (float_sub (ask d) (bid d)) 3)
                        (bidprice data) (askprice data)
                        (py_round (float_sub (askprice data) (bidprice data)) 3)])
               else (q1\<lparr>dicts := (dicts q)(r := d)\<rparr>, []))"
proof -
  have k: "symbol_dict q1 (symbol data) = Some r" "dicts q1 = dicts q"
    using get_symbol_dict_key [OF assms] by simp_all
  define d where "d = (dicts q r)\<lparr>bid_size := bidsize data, ask_size := asksize data\<rparr>"
  define q2 where "q2 = assign r (\<lambda>d. d\<lparr>ask_size := asksize data\<rparr>)
                          (assign r (\<lambda>d. d\<lparr>bid_size := bidsize data\<rparr>) q1)"
  have q2: "dicts q2 r = d" "q2 = q1\<lparr>dicts := (dicts q)(r := d)\<rparr>"
    using k by (simp_all add: q2_def d_def assign_def)
  have u: "update q data =
     (let (r, q, out) =
            (if level_change (dicts q2 r) data then
               let q = assign r (\<lambda>d. d\<lparr>prev_bid := bid d\<rparr>) q2;
                   q = assign r (\<lambda>d. d\<lparr>prev_ask := ask d\<rparr>) q;
                   q = assign r (\<lambda>d. d\<lparr>bid := bidprice data\<rparr>) q;
                   q = assign r (\<lambda>d. d\<lparr>ask := askprice data\<rparr>) q;
                   q = assign r (\<lambda>d. d\<lparr>time := timestamp data\<rparr>) q;
                   q = assign r (\<lambda>d. d\<lparr>prev_spread := py_round (float_sub (prev_ask d) (prev_bid d)) 3\<rparr>) q;
                   q = assign r (\<lambda>d. d\<lparr>spread := py_round (float_sub (ask d) (bid d)) 3\<rparr>) q;
                   d = dicts q r;
                   out = [PrintLevelChange (symbol data) (prev_bid d) (prev_ask d) (prev_spread d)
                            (bid d) (ask d) (spread d)];
                   (r, q) = (if prev_spread (dicts q r) = float_of (1 / 100) then reset_dict q r else (r, q))
               in (r, q, out)
             else (r, q2, []))
      in (update_symbol_dict q (symbol data) r, out))"
    unfolding update_def q2_def Let_def assms prod.case ..
  show ?thesis
  proof (cases "level_change d data")
    case False
    then show ?thesis
      unfolding u using q2 k(1)
      by (simp add: update_symbol_dict_at d_def [symmetric])
  next
    case True
    have t: "level_change (dicts q2 r) data" using True q2 by simp
    show ?thesis
      unfolding u t if_True unfolding q2(2)
      by (simp add: Let_def reset_dict_def update_symbol_dict_at k(1) assign_at new_level_def
            d_def [symmetric] True)
  qed
qed

lemma stored_update:
  "stored (fst (update q data)) (symbol data) =
     (let d = (stored q (symbol data))\<lparr>bid_size := bidsize data, ask_size := asksize data\<rparr>
      in if level_change d data then new_level d data else d)"
proof -
  obtain r q1 where g: "get_symbol_dict q (symbol data) = (r, q1)"
    by (cases "get_symbol_dict q (symbol data)")
  have k: "symbol_dict q1 (symbol data) = Some r"
    using get_symbol_dict_key [OF g] by simp
  show ?thesis
    using k by (simp add: update_via_ref [OF g] stored_get [OF g] Let_def stored_registered)
qed

section \<open>One dictionary for all symbols\<close>

lemma shared_init: "shared Quote_init"
  by (simp add: shared_def Quote_init_def)

lemma get_symbol_dict_shared:
  assumes "shared q"
  shows "get_symbol_dict q s =
           (default_dict q, q\<lparr>symbol_dict := (symbol_dict q)(s \<mapsto> default_dict q)\<rparr>)"
proof (cases "symbol_dict q s")
  case None
  then show ?thesis by (simp add: get_symbol_dict_def)
next
  case (Some r)
  with assms have "r = default_dict q" by (simp add: shared_def)
  with Some have "(symbol_dict q)(s \<mapsto> default_dict q) = symbol_dict q"
    by (simp add: map_upd_triv)
  with Some \<open>r = default_dict q\<close> show ?thesis by (simp add: get_symbol_dict_def)
qed

lemma shared_register:
  "shared q \<Longrightarrow> shared (q\<lparr>symbol_dict := (symbol_dict q)(s \<mapsto> default_dict q)\<rparr>)"
  by (simp add: shared_def)

lemma stored_shared: "shared q \<Longrightarrow> stored q s = dicts q (default_dict q)"
  by (simp add: stored_def get_symbol_dict_shared)

lemma update_shared:
  assumes "shared q"
  shows "update q data =
           (let d = (dicts q (default_dict q))\<lparr>bid_size := bidsize data, ask_size := asksize data\<rparr>;
                q1 = q\<lparr>symbol_dict := (symbol_dict q)(symbol data \<mapsto> default_dict q)\<rparr>
            in if level_change d data
               then (q1\<lparr>dicts := (dicts q)(default_dict q := new_level d data)\<rparr>,
                     [PrintLevelChange (symbol data) (bid d) (ask d) (py_round (float_sub (ask d) (bid d)) 3)
                        (bidprice data) (askprice data)
                        (py_round (float_sub (askprice data) (bidprice data)) 3)])
               else (q1\<lparr>dicts := (dicts q)(default_dict q := d)\<rparr>, []))"
  by (simp add: update_via_ref [OF get_symbol_dict_shared [OF assms]] Let_def)

lemma shared_update: "shared q \<Longrightarrow> shared (fst (update q data))"
  by (simp add: update_shared Let_def shared_def)

lemma default_dict_update: "shared q \<Longrightarrow> default_dict (fst (update q data)) = default_dict q"
  by (simp add: update_shared Let_def)

text \<open>After a quote for one symbol, every symbol's stored state is the one just written.\<close>

lemma update_writes_every_symbol:
  assumes "shared q"
  shows "stored (fst (update q data)) s = stored (fst (update q data)) (symbol data)"
  by (simp add: stored_shared [OF shared_update [OF assms]])

lemma stored_update_shared:
  assumes "shared q"
  shows "stored (fst (update q data)) s =
           (let d = (stored q s)\<lparr>bid_size := bidsize data, ask_size := asksize data\<rparr>
            in if level_change d data then new_level d data else d)"
  unfolding update_writes_every_symbol [OF assms, of data s] stored_update
    stored_shared [OF assms] ..

lemma symbol_dict_update_shared:
  "shared q \<Longrightarrow>
     symbol_dict (fst (update q data)) = (symbol_dict q)(symbol data \<mapsto> default_dict q)"
  by (simp add: update_shared Let_def)

section \<open>The session, evaluated\<close>

text \<open>The floats of the session, by their exact values.\<close>

lemma usd_values:
  "usd_10_00 = 10"
  "usd_10_01 = 5635129033747333 / 562949953421312"
  "usd_10_015 = 704742972939305 / 70368744177664"
  "usd_10_02 = 2820379266640773 / 281474976710656"
  "usd_20_00 = 20"
  "usd_20_01 = 5632314283980227 / 281474976710656"
  "float_of (1 / 100) = 5764607523034235 / 576460752303423488"
  by code_simp+

lemma usd_distinct:
  "usd_10_00 \<noteq> 0" "usd_10_01 \<noteq> 0" "float_of (1 / 100) \<noteq> 0"
  "usd_10_00 \<noteq> usd_10_01" "usd_10_01 \<noteq> usd_10_02" "usd_10_01 \<noteq> usd_10_015"
  "usd_10_00 \<noteq> usd_20_00" "usd_10_01 \<noteq> usd_20_01"
  unfolding usd_values by simp_all

text \<open>The float products of the session's sizes and 1.8 are the exact products.\<close>

lemma size_products:
  "float_of (of_int 100 * float_of (18 / 10)) = of_int 100 * (18 / 10)"
  "float_of (of_int 300 * float_of (18 / 10)) = of_int 300 * (18 / 10)"
  by code_simp+

text \<open>
  The differences 10.01 - 10.00, 10.02 - 10.01 and 20.01 - 20.00 are not the float 0.01, and
  round to it at two and at three decimals. The difference 10.015 - 10.01 is a little more
  than half a cent, and rounds to 0.01 at two decimals.
\<close>

lemma float_differences:
  "float_sub usd_10_01 usd_10_00 = 5629499534213 / 562949953421312"
  "float_sub usd_10_02 usd_10_01 = 5629499534213 / 562949953421312"
  "float_sub usd_20_01 usd_20_00 = 2814749767107 / 281474976710656"
  "float_sub usd_10_015 usd_10_01 = 2814749767107 / 562949953421312"
  by code_simp+

lemma rounded_spreads:
  "py_round (float_sub 0 0) 3 = 0"
  "py_round (float_sub usd_10_01 usd_10_00) 2 = float_of (1 / 100)"
  "py_round (float_sub usd_10_01 usd_10_00) 3 = float_of (1 / 100)"
  "py_round (float_sub usd_10_02 usd_10_01) 2 = float_of (1 / 100)"
  "py_round (float_sub usd_10_02 usd_10_01) 3 = float_of (1 / 100)"
  "py_round (float_sub usd_20_01 usd_20_00) 2 = float_of (1 / 100)"
  "py_round (float_sub usd_20_01 usd_20_00) 3 = float_of (1 / 100)"
  "py_round (float_sub usd_10_015 usd_10_01) 2 = float_of (1 / 100)"
  by code_simp+

lemma shared_after_B1: "shared after_B1"
  by (simp add: after_B1_def on_quote_def shared_update shared_init)

lemma shared_after_B2: "shared after_B2"
  by (simp add: after_B2_def on_quote_def shared_update shared_after_B1)

lemma stored_init: "stored Quote_init s = default_values"
  unfolding stored_shared [OF shared_init] by (simp add: Quote_init_def)

lemma stored_after_B1:
  "stored after_B1 s =
     \<lparr>prev_bid = 0, prev_ask = 0, prev_spread = 0, bid = usd_10_00, ask = usd_10_01,
      bid_size = 300, ask_size = 100, spread = float_of (1 / 100), traded = True, level_ct = 1,
      time = 1000000000\<rparr>"
  unfolding after_B1_def on_quote_def stored_update_shared [OF shared_init] stored_init
  by (simp add: level_change_def new_level_def default_values_def quote_B1_def
        rounded_spreads usd_distinct usd_distinct [symmetric])

lemma stored_after_B2:
  "stored after_B2 s =
     \<lparr>prev_bid = usd_10_00, prev_ask = usd_10_01, prev_spread = float_of (1 / 100), bid = usd_10_01,
      ask = usd_10_02, bid_size = 300, ask_size = 100, spread = float_of (1 / 100), traded = False,
      level_ct = 2, time = 2000000000\<rparr>"
  unfolding after_B2_def on_quote_def stored_update_shared [OF shared_after_B1] stored_after_B1
  by (simp add: level_change_def new_level_def quote_B2_def rounded_spreads usd_distinct
        usd_distinct [symmetric])

lemma stored_after_B1_A:
  "stored after_B1_A s =
     \<lparr>prev_bid = usd_10_00, prev_ask = usd_10_01, prev_spread = float_of (1 / 100), bid = usd_20_00,
      ask = usd_20_01, bid_size = 5, ask_size = 7, spread = float_of (1 / 100), traded = False,
      level_ct = 2, time = 3000000000\<rparr>"
  unfolding after_B1_A_def on_quote_def stored_update_shared [OF shared_after_B1] stored_after_B1
  by (simp add: level_change_def new_level_def quote_A_def rounded_spreads usd_distinct
        usd_distinct [symmetric])

lemma symbol_dict_after_B1: "symbol_dict after_B1 = [''B'' \<mapsto> 0]"
  unfolding after_B1_def on_quote_def symbol_dict_update_shared [OF shared_init]
  by (simp add: Quote_init_def quote_B1_def)

lemma symbol_dict_after_B1_A: "symbol_dict after_B1_A = [''B'' \<mapsto> 0, ''A'' \<mapsto> 0]"
proof -
  have "default_dict after_B1 = 0"
    unfolding after_B1_def on_quote_def default_dict_update [OF shared_init]
    by (simp add: Quote_init_def)
  then show ?thesis
    unfolding after_B1_A_def on_quote_def symbol_dict_update_shared [OF shared_after_B1]
      symbol_dict_after_B1
    by (simp add: quote_A_def)
qed

lemma stored_after_B3:
  "stored after_B3 s =
     \<lparr>prev_bid = usd_10_00, prev_ask = usd_10_01, prev_spread = float_of (1 / 100), bid = usd_10_01,
      ask = usd_10_02, bid_size = 100, ask_size = 300, spread = float_of (1 / 100), traded = False,
      level_ct = 2, time = 2000000000\<rparr>"
  unfolding after_B3_def on_quote_def stored_update_shared [OF shared_after_B2] stored_after_B2
  by (simp add: level_change_def quote_B3_def)

section \<open>Defaults of a symbol's state\<close>

text \<open>
  C5, as amended. On a new \<open>Quote\<close> object, the state found for a symbol at its first
  access is the default dictionary: bid and ask are 0 and the level counter is 1, and
  \<open>traded\<close> is \<open>True\<close>, so that the symbol starts not eligible to trade: \<open>on_trade\<close>
  for it sends no order and changes neither a stored value nor the position.
\<close>

theorem default_state:
  "stored Quote_init smb = default_values
   \<and> bid (stored Quote_init smb) = 0 \<and> ask (stored Quote_init smb) = 0
   \<and> level_ct (stored Quote_init smb) = 1
   \<and> traded (stored Quote_init smb) \<and> \<not> eligible (stored Quote_init smb)
   \<and> on_trade max_shares gw (Quote_init, Position_init) data
       = ((snd (get_symbol_dict Quote_init (symbol data)), Position_init), [])"
  by (simp add: stored_def get_symbol_dict_def Quote_init_def default_values_def eligible_def
        on_trade_def)

text \<open>
  C5 as it is written says that the symbol starts eligible. For the symbol SNAP on a new
  \<open>Quote\<close> object it does not.
\<close>

theorem default_eligible_counterexample:
  "\<not> (bid (stored Quote_init ''SNAP'') = 0 \<and> ask (stored Quote_init ''SNAP'') = 0
      \<and> level_ct (stored Quote_init ''SNAP'') = 1 \<and> eligible (stored Quote_init ''SNAP''))"
  by (simp add: stored_def get_symbol_dict_def Quote_init_def default_values_def eligible_def)

section \<open>Level changes\<close>

text \<open>
  C2. \<open>update\<close> reports a level change exactly when the bid differs from the stored bid,
  the ask differs from the stored ask, and \<open>round(ask - bid, 2) == .01\<close>: the float
  difference of the two prices, rounded at two decimals, is the float 0.01.
  The sizes stored for the symbol are those of the quote after every call. When the test
  fails nothing else of the symbol's state changes: bid, ask, previous bid and ask, both
  spreads, the \<open>traded\<close> flag, the level counter and the time stay as they were. When it
  holds, the quote's prices and time stamp are stored and the old prices become the
  previous ones.
\<close>

theorem update_level_change:
  "(snd (update q data) \<noteq> [] \<longleftrightarrow>
      bid (stored q (symbol data)) \<noteq> bidprice data
      \<and> ask (stored q (symbol data)) \<noteq> askprice data
      \<and> py_round (float_sub (askprice data) (bidprice data)) 2 = float_of (1 / 100))
   \<and> bid_size (stored (fst (update q data)) (symbol data)) = bidsize data
   \<and> ask_size (stored (fst (update q data)) (symbol data)) = asksize data
   \<and> (\<not> (bid (stored q (symbol data)) \<noteq> bidprice data
          \<and> ask (stored q (symbol data)) \<noteq> askprice data
          \<and> py_round (float_sub (askprice data) (bidprice data)) 2 = float_of (1 / 100)) \<longrightarrow>
        stored (fst (update q data)) (symbol data) =
          (stored q (symbol data))\<lparr>bid_size := bidsize data, ask_size := asksize data\<rparr>)
   \<and> (bid (stored q (symbol data)) \<noteq> bidprice data
        \<and> ask (stored q (symbol data)) \<noteq> askprice data
        \<and> py_round (float_sub (askprice data) (bidprice data)) 2 = float_of (1 / 100) \<longrightarrow>
        bid (stored (fst (update q data)) (symbol data)) = bidprice data
        \<and> ask (stored (fst (update q data)) (symbol data)) = askprice data
        \<and> prev_bid (stored (fst (update q data)) (symbol data)) = bid (stored q (symbol data))
        \<and> prev_ask (stored (fst (update q data)) (symbol data)) = ask (stored q (symbol data))
        \<and> time (stored (fst (update q data)) (symbol data)) = timestamp data)"
proof -
  obtain r q1 where g: "get_symbol_dict q (symbol data) = (r, q1)"
    by (cases "get_symbol_dict q (symbol data)")
  have out: "snd (update q data) \<noteq> [] \<longleftrightarrow>
               level_change ((stored q (symbol data))\<lparr>bid_size := bidsize data,
                               ask_size := asksize data\<rparr>) data"
    by (simp add: update_via_ref [OF g] stored_get [OF g] Let_def)
  show ?thesis
    unfolding out stored_update
    by (simp add: level_change_def new_level_def Let_def)
qed

text \<open>
  A first quote is a level change; the same quote again is none; and a quote with a
  spread of half a cent is one, since the float difference 10.015 - 10.01 is a little more
  than 0.005 and rounds up.
\<close>

theorem update_level_change_witness:
  "snd (update Quote_init quote_B1) \<noteq> []
   \<and> bid (stored (fst (update Quote_init quote_B1)) ''B'') = usd_10_00
   \<and> ask (stored (fst (update Quote_init quote_B1)) ''B'') = usd_10_01
   \<and> time (stored (fst (update Quote_init quote_B1)) ''B'') = 1000000000
   \<and> snd (update after_B1 quote_B1) = []
   \<and> stored (fst (update after_B1 quote_B1)) ''B'' = stored after_B1 ''B''
   \<and> snd (update after_B1 quote_B_half) \<noteq> []
   \<and> bid (stored (fst (update after_B1 quote_B_half)) ''B'') = usd_10_01
   \<and> ask (stored (fst (update after_B1 quote_B_half)) ''B'') = usd_10_015"
proof -
  have 1: "snd (update Quote_init quote_B1) \<noteq> []
     \<and> bid (stored (fst (update Quote_init quote_B1)) ''B'') = usd_10_00
     \<and> ask (stored (fst (update Quote_init quote_B1)) ''B'') = usd_10_01
     \<and> time (stored (fst (update Quote_init quote_B1)) ''B'') = 1000000000"
    using update_level_change [of Quote_init quote_B1]
    by (simp add: stored_init default_values_def quote_B1_def rounded_spreads usd_distinct
          usd_distinct [symmetric])
  have 2: "snd (update after_B1 quote_B1) = []
     \<and> stored (fst (update after_B1 quote_B1)) ''B'' = stored after_B1 ''B''"
    using update_level_change [of after_B1 quote_B1]
    by (simp add: stored_after_B1 quote_B1_def)
  have 3: "snd (update after_B1 quote_B_half) \<noteq> []
     \<and> bid (stored (fst (update after_B1 quote_B_half)) ''B'') = usd_10_01
     \<and> ask (stored (fst (update after_B1 quote_B_half)) ''B'') = usd_10_015"
    using update_level_change [of after_B1 quote_B_half]
    by (simp add: stored_after_B1 quote_B_half_def rounded_spreads usd_distinct
          usd_distinct [symmetric])
  show ?thesis using 1 2 3 by simp
qed

section \<open>One state per symbol\<close>

text \<open>
  C4 asks that a quote for A leaves the state stored for B alone. After a first quote for
  B (10.00 at 10.01, sizes 300 and 100) and then a quote for A (20.00 at 20.01, sizes 5
  and 7), the state stored for B holds A's prices and sizes, and both symbols are keys of
  the same dictionary object.
\<close>

theorem quote_for_A_overwrites_B:
  "symbol_dict after_B1_A ''A'' = symbol_dict after_B1_A ''B''
   \<and> bid (stored after_B1 ''B'') = usd_10_00 \<and> ask (stored after_B1 ''B'') = usd_10_01
   \<and> bid_size (stored after_B1 ''B'') = 300 \<and> ask_size (stored after_B1 ''B'') = 100
   \<and> traded (stored after_B1 ''B'')
   \<and> bid (stored after_B1_A ''B'') = usd_20_00 \<and> ask (stored after_B1_A ''B'') = usd_20_01
   \<and> bid_size (stored after_B1_A ''B'') = 5 \<and> ask_size (stored after_B1_A ''B'') = 7
   \<and> \<not> traded (stored after_B1_A ''B'')"
  by (simp add: symbol_dict_after_B1_A stored_after_B1 stored_after_B1_A)

section \<open>\<open>on_trade\<close>\<close>

lemma try_order_submit_fails:
  "submit_order gw smb 100 sd lp = Inl e \<Longrightarrow>
     try_order gw (quote, position) r smb sd lp =
       ((quote, position), [SubmitOrder smb 100 sd lp, PrintExn e])"
  by (simp add: try_order_def)

lemma try_order_cancel_fails:
  "submit_order gw smb 100 sd lp = Inr oid \<Longrightarrow> cancel_order gw oid = Inl e \<Longrightarrow>
     try_order gw (quote, position) r smb sd lp =
       ((quote, position), [SubmitOrder smb 100 sd lp, CancelOrder oid, PrintExn e])"
  by (simp add: try_order_def)

lemma try_order_ok:
  "submit_order gw smb 100 sd lp = Inr oid \<Longrightarrow> cancel_order gw oid = Inr u \<Longrightarrow>
     try_order gw (quote, position) r smb sd lp =
       ((assign r (\<lambda>d. d\<lparr>traded := True\<rparr>) quote,
         (if sd = ''buy'' then update_pending_buy_shares position 100
          else update_pending_sell_shares position 100)
           \<lparr>orders_filled_amount :=
              (orders_filled_amount
                 (if sd = ''buy'' then update_pending_buy_shares position 100
                  else update_pending_sell_shares position 100))(oid \<mapsto> 0)\<rparr>),
        [SubmitOrder smb 100 sd lp, CancelOrder oid,
         if sd = ''buy'' then PrintBuy smb lp else PrintSell smb lp])"
  by (simp add: try_order_def Let_def)

lemma order_attempts_try_order:
  "order_attempts (snd (try_order gw st r smb sd lp)) = [SubmitOrder smb 100 sd lp]"
  by (cases st) (simp add: try_order_def Let_def split: sum.splits)

lemma on_trade_via_ref:
  assumes "get_symbol_dict quote (symbol data) = (r, q1)"
  shows "on_trade max_shares gw (quote, position) data =
           (let d = dicts quote r
            in if traded d then ((q1, position), [])
               else if timestamp data \<le> time d + timedelta_50ms then ((q1, position), [])
               else if trade_size data \<ge> 100 then
                 (if buy_signal max_shares d position data then
                    try_order gw (q1, position) r (symbol data) ''buy'' (ask d)
                  else if sell_signal d position data then
                    try_order gw (q1, position) r (symbol data) ''sell'' (bid d)
                  else ((q1, position), []))
               else ((q1, position), []))"
  using get_symbol_dict_key [OF assms] by (simp add: on_trade_def assms Let_def)

text \<open>
  The same, read on the state stored for the symbol.
\<close>

lemma on_trade_stored:
  "on_trade max_shares gw (quote, position) data =
     (let d = stored quote (symbol data);
          r = fst (get_symbol_dict quote (symbol data));
          q1 = snd (get_symbol_dict quote (symbol data))
      in if traded d then ((q1, position), [])
         else if timestamp data \<le> time d + timedelta_50ms then ((q1, position), [])
         else if trade_size data \<ge> 100 then
           (if buy_signal max_shares d position data then
              try_order gw (q1, position) r (symbol data) ''buy'' (ask d)
            else if sell_signal d position data then
              try_order gw (q1, position) r (symbol data) ''sell'' (bid d)
            else ((q1, position), []))
         else ((q1, position), []))"
proof -
  obtain r q1 where g: "get_symbol_dict quote (symbol data) = (r, q1)"
    by (cases "get_symbol_dict quote (symbol data)")
  show ?thesis
    unfolding on_trade_via_ref [OF g] stored_get [OF g] g fst_conv snd_conv Let_def ..
qed

text \<open>When the gate is closed the handler does nothing but look the symbol up.\<close>

lemma on_trade_gated:
  assumes "traded (stored quote (symbol data))
           \<or> timestamp data \<le> time (stored quote (symbol data)) + timedelta_50ms
           \<or> trade_size data < 100"
  shows "on_trade max_shares gw (quote, position) data =
           ((snd (get_symbol_dict quote (symbol data)), position), [])"
  using assms by (auto simp: on_trade_stored Let_def)

text \<open>When the gate is open, what is sent depends on the two signals alone.\<close>

lemma on_trade_attempts:
  assumes "\<not> traded (stored quote (symbol data))"
    and "time (stored quote (symbol data)) + timedelta_50ms < timestamp data"
    and "100 \<le> trade_size data"
  shows "order_attempts (snd (on_trade max_shares gw (quote, position) data)) =
           (if buy_signal max_shares (stored quote (symbol data)) position data
            then [SubmitOrder (symbol data) 100 ''buy'' (ask (stored quote (symbol data)))]
            else if sell_signal (stored quote (symbol data)) position data
            then [SubmitOrder (symbol data) 100 ''sell'' (bid (stored quote (symbol data)))]
            else [])"
  using assms by (simp add: on_trade_stored Let_def order_attempts_try_order)

text \<open>An order goes out and the gateway's two answers decide the rest.\<close>

lemma on_trade_order:
  assumes "\<not> traded (stored quote (symbol data))"
    and "time (stored quote (symbol data)) + timedelta_50ms < timestamp data"
    and "100 \<le> trade_size data"
    and "(buy_signal max_shares (stored quote (symbol data)) position data
            \<and> sd = ''buy'' \<and> lp = ask (stored quote (symbol data)))
         \<or> (\<not> buy_signal max_shares (stored quote (symbol data)) position data
            \<and> sell_signal (stored quote (symbol data)) position data
            \<and> sd = ''sell'' \<and> lp = bid (stored quote (symbol data)))"
  shows "on_trade max_shares gw (quote, position) data =
           try_order gw (snd (get_symbol_dict quote (symbol data)), position)
             (fst (get_symbol_dict quote (symbol data))) (symbol data) sd lp"
  using assms by (auto simp: on_trade_stored Let_def)

lemma stored_assign_own:
  assumes "get_symbol_dict q s = (r, q1)"
  shows "stored (assign r f q1) s = f (stored q s)"
proof -
  have k: "symbol_dict q1 s = Some r" "dicts q1 = dicts q"
    using get_symbol_dict_key [OF assms] by simp_all
  have "symbol_dict (assign r f q1) s = Some r"
    using k by (simp add: assign_def)
  from stored_registered [OF this] show ?thesis
    using k by (simp add: stored_get [OF assms] assign_def)
qed

lemma stored_assign_shared:
  assumes "shared q"
  shows "stored (assign (fst (get_symbol_dict q s)) f (snd (get_symbol_dict q s))) s' =
           f (stored q s')"
proof -
  let ?q1 = "q\<lparr>symbol_dict := (symbol_dict q)(s \<mapsto> default_dict q)\<rparr>"
  have "shared (assign (default_dict q) f ?q1)"
    using assms by (simp add: shared_def assign_def)
  from stored_shared [OF this] show ?thesis
    by (simp add: get_symbol_dict_shared [OF assms] stored_shared [OF assms] assign_def)
qed

text \<open>
  A trade that is followed, with both calls accepted: the order is registered, and the
  flag is set in the dictionary of the symbol, which is the dictionary of every symbol.
\<close>

lemma on_trade_accepted:
  assumes "\<not> traded (stored quote (symbol data))"
    and "time (stored quote (symbol data)) + timedelta_50ms < timestamp data"
    and "100 \<le> trade_size data"
    and "(buy_signal max_shares (stored quote (symbol data)) position data
            \<and> sd = ''buy'' \<and> lp = ask (stored quote (symbol data)))
         \<or> (\<not> buy_signal max_shares (stored quote (symbol data)) position data
            \<and> sell_signal (stored quote (symbol data)) position data
            \<and> sd = ''sell'' \<and> lp = bid (stored quote (symbol data)))"
    and "submit_order gw (symbol data) 100 sd lp = Inr oid"
    and "cancel_order gw oid = Inr u"
  shows "snd (on_trade max_shares gw (quote, position) data) =
           [SubmitOrder (symbol data) 100 sd lp, CancelOrder oid,
            if sd = ''buy'' then PrintBuy (symbol data) lp else PrintSell (symbol data) lp]"
    and "stored (fst (fst (on_trade max_shares gw (quote, position) data))) (symbol data) =
           (stored quote (symbol data))\<lparr>traded := True\<rparr>"
    and "shared quote \<Longrightarrow>
           stored (fst (fst (on_trade max_shares gw (quote, position) data))) s =
             (stored quote s)\<lparr>traded := True\<rparr>"
    and "snd (fst (on_trade max_shares gw (quote, position) data)) =
           (if sd = ''buy'' then update_pending_buy_shares position 100
            else update_pending_sell_shares position 100)
             \<lparr>orders_filled_amount :=
                (orders_filled_amount position)(oid \<mapsto> 0)\<rparr>"
proof -
  obtain r q1 where g: "get_symbol_dict quote (symbol data) = (r, q1)"
    by (cases "get_symbol_dict quote (symbol data)")
  have t: "on_trade max_shares gw (quote, position) data =
             try_order gw (q1, position) r (symbol data) sd lp"
    using on_trade_order [OF assms(1-4), of gw] by (simp add: g)
  note ok = try_order_ok [OF assms(5,6), of q1 position r]
  show "snd (on_trade max_shares gw (quote, position) data) =
           [SubmitOrder (symbol data) 100 sd lp, CancelOrder oid,
            if sd = ''buy'' then PrintBuy (symbol data) lp else PrintSell (symbol data) lp]"
    unfolding t ok by simp
  show "stored (fst (fst (on_trade max_shares gw (quote, position) data))) (symbol data) =
           (stored quote (symbol data))\<lparr>traded := True\<rparr>"
    unfolding t ok by (simp add: stored_assign_own [OF g])
  show "stored (fst (fst (on_trade max_shares gw (quote, position) data))) s =
             (stored quote s)\<lparr>traded := True\<rparr>" if "shared quote"
    unfolding t ok using stored_assign_shared [OF that, of "symbol data" _ s]
    by (simp add: g)
  show "snd (fst (on_trade max_shares gw (quote, position) data)) =
           (if sd = ''buy'' then update_pending_buy_shares position 100
            else update_pending_sell_shares position 100)
             \<lparr>orders_filled_amount :=
                (orders_filled_amount position)(oid \<mapsto> 0)\<rparr>"
    unfolding t ok
    by (simp add: update_pending_buy_shares_def update_pending_sell_shares_def)
qed


section \<open>The decision on a trade print\<close>

text \<open>
  C3. Let \<open>d\<close> be the state stored for the symbol of the trade. If \<open>traded\<close> is set in
  \<open>d\<close> (the symbol is not eligible), or the trade's time stamp is at most 50 ms after the
  time of the last level change, or the trade's size is below 100, then the handler sends
  nothing and prints nothing, leaves the position and every dictionary as they are, and
  leaves the state stored for every symbol as it is; for a symbol that is already a key
  the \<open>Quote\<close> object is unchanged altogether (the lookup makes a new symbol a key of
  \<open>symbol_dict\<close>). Otherwise the orders sent are: one buy of 100 at the stored ask if the
  price is the stored ask, the bid size exceeds 1.8 times the ask size and total plus
  pending buy shares are below \<open>max_shares - 100\<close>; else one sell of 100 at the stored bid
  if the price is the stored bid, the ask size exceeds 1.8 times the bid size and total
  minus pending sell shares are at least 100; else none. In every case at most one order
  is sent.
\<close>

theorem on_trade_decision:
  "(traded (stored quote (symbol data))
      \<or> timestamp data \<le> time (stored quote (symbol data)) + timedelta_50ms
      \<or> trade_size data < 100 \<longrightarrow>
        snd (on_trade max_shares gw (quote, position) data) = []
        \<and> snd (fst (on_trade max_shares gw (quote, position) data)) = position
        \<and> dicts (fst (fst (on_trade max_shares gw (quote, position) data))) = dicts quote
        \<and> (\<forall>s. stored (fst (fst (on_trade max_shares gw (quote, position) data))) s
                 = stored quote s)
        \<and> (symbol data \<in> dom (symbol_dict quote) \<longrightarrow>
             fst (fst (on_trade max_shares gw (quote, position) data)) = quote))
   \<and> (\<not> traded (stored quote (symbol data))
        \<and> time (stored quote (symbol data)) + timedelta_50ms < timestamp data
        \<and> 100 \<le> trade_size data \<longrightarrow>
        order_attempts (snd (on_trade max_shares gw (quote, position) data)) =
          (if price data = ask (stored quote (symbol data))
              \<and> of_int (bid_size (stored quote (symbol data)))
                  > of_int (ask_size (stored quote (symbol data))) * (18 / 10 :: rat)
              \<and> total_shares position + pending_buy_shares position < max_shares - 100
           then [SubmitOrder (symbol data) 100 ''buy'' (ask (stored quote (symbol data)))]
           else if price data = bid (stored quote (symbol data))
              \<and> of_int (ask_size (stored quote (symbol data)))
                  > of_int (bid_size (stored quote (symbol data))) * (18 / 10 :: rat)
              \<and> total_shares position - pending_sell_shares position \<ge> 100
           then [SubmitOrder (symbol data) 100 ''sell'' (bid (stored quote (symbol data)))]
           else []))
   \<and> length (order_attempts (snd (on_trade max_shares gw (quote, position) data))) \<le> 1"
proof (intro conjI impI)
  assume c: "traded (stored quote (symbol data))
      \<or> timestamp data \<le> time (stored quote (symbol data)) + timedelta_50ms
      \<or> trade_size data < 100"
  note g = on_trade_gated [OF c, of max_shares gw position]
  show "snd (on_trade max_shares gw (quote, position) data) = []"
    and "snd (fst (on_trade max_shares gw (quote, position) data)) = position"
    by (simp_all add: g)
  show "dicts (fst (fst (on_trade max_shares gw (quote, position) data))) = dicts quote"
    by (simp add: g get_symbol_dict_def split: option.splits)
  show "\<forall>s. stored (fst (fst (on_trade max_shares gw (quote, position) data))) s
                 = stored quote s"
    by (simp add: g stored_after_get)
  show "fst (fst (on_trade max_shares gw (quote, position) data)) = quote"
    if "symbol data \<in> dom (symbol_dict quote)"
    using that by (auto simp: g get_symbol_dict_def)
next
  assume o: "\<not> traded (stored quote (symbol data))
        \<and> time (stored quote (symbol data)) + timedelta_50ms < timestamp data
        \<and> 100 \<le> trade_size data"
  then show "order_attempts (snd (on_trade max_shares gw (quote, position) data)) =
          (if price data = ask (stored quote (symbol data))
              \<and> of_int (bid_size (stored quote (symbol data)))
                  > of_int (ask_size (stored quote (symbol data))) * (18 / 10 :: rat)
              \<and> total_shares position + pending_buy_shares position < max_shares - 100
           then [SubmitOrder (symbol data) 100 ''buy'' (ask (stored quote (symbol data)))]
           else if price data = bid (stored quote (symbol data))
              \<and> of_int (ask_size (stored quote (symbol data)))
                  > of_int (bid_size (stored quote (symbol data))) * (18 / 10 :: rat)
              \<and> total_shares position - pending_sell_shares position \<ge> 100
           then [SubmitOrder (symbol data) 100 ''sell'' (bid (stored quote (symbol data)))]
           else [])"
    using on_trade_attempts [of quote data max_shares gw position]
    by (simp add: buy_signal_def sell_signal_def)
next
  show "length (order_attempts (snd (on_trade max_shares gw (quote, position) data))) \<le> 1"
    by (simp add: on_trade_stored Let_def order_attempts_try_order)
qed

theorem on_trade_decision_witness:
  "snd (on_trade 500 gw_ok (Quote_init, Position_init) trade_B) = []
   \<and> snd (fst (on_trade 500 gw_ok (Quote_init, Position_init) trade_B)) = Position_init
   \<and> on_trade 500 gw_ok (after_B1, Position_init) trade_B = ((after_B1, Position_init), [])
   \<and> order_attempts (snd (on_trade 500 gw_ok (after_B2, Position_init) trade_B)) =
       [SubmitOrder ''B'' 100 ''buy'' usd_10_02]
   \<and> order_attempts (snd (on_trade 500 gw_ok (after_B3, holding_100) trade_B_bid)) =
       [SubmitOrder ''B'' 100 ''sell'' usd_10_01]"
proof (intro conjI)
  have 0: "traded (stored Quote_init (symbol trade_B))"
    by (simp add: stored_init default_values_def)
  show "snd (on_trade 500 gw_ok (Quote_init, Position_init) trade_B) = []"
    and "snd (fst (on_trade 500 gw_ok (Quote_init, Position_init) trade_B)) = Position_init"
    using on_trade_decision [of Quote_init trade_B 500 gw_ok Position_init] 0 by blast+
  have 1: "traded (stored after_B1 (symbol trade_B))"
    "symbol trade_B \<in> dom (symbol_dict after_B1)"
    by (simp_all add: stored_after_B1 symbol_dict_after_B1 trade_B_def)
  have "snd (on_trade 500 gw_ok (after_B1, Position_init) trade_B) = []
        \<and> snd (fst (on_trade 500 gw_ok (after_B1, Position_init) trade_B)) = Position_init
        \<and> fst (fst (on_trade 500 gw_ok (after_B1, Position_init) trade_B)) = after_B1"
    using on_trade_decision [of after_B1 trade_B 500 gw_ok Position_init] 1 by blast
  then show "on_trade 500 gw_ok (after_B1, Position_init) trade_B =
               ((after_B1, Position_init), [])"
    by (simp add: prod_eq_iff)
  show "order_attempts (snd (on_trade 500 gw_ok (after_B2, Position_init) trade_B)) =
       [SubmitOrder ''B'' 100 ''buy'' usd_10_02]"
    using on_trade_decision [of after_B2 trade_B 500 gw_ok Position_init]
    by (simp add: stored_after_B2 trade_B_def timedelta_50ms_def Position_init_def)
  show "order_attempts (snd (on_trade 500 gw_ok (after_B3, holding_100) trade_B_bid)) =
       [SubmitOrder ''B'' 100 ''sell'' usd_10_01]"
    using on_trade_decision [of after_B3 trade_B_bid 500 gw_ok holding_100]
    by (simp add: stored_after_B3 trade_B_bid_def timedelta_50ms_def Position_init_def
          holding_100_def)
qed

section \<open>A refused cancel\<close>

lemma gate_open_after_B2:
  "\<not> traded (stored after_B2 (symbol trade_B))"
  "time (stored after_B2 (symbol trade_B)) + timedelta_50ms < timestamp trade_B"
  "100 \<le> trade_size trade_B"
  "\<not> traded (stored after_B2 (symbol trade_A))"
  "time (stored after_B2 (symbol trade_A)) + timedelta_50ms < timestamp trade_A"
  "100 \<le> trade_size trade_A"
  by (simp_all add: stored_after_B2 trade_B_def trade_A_def timedelta_50ms_def)

lemma buy_signal_after_B2:
  "buy_signal 500 (stored after_B2 (symbol trade_B)) Position_init trade_B
     \<and> ''buy'' = ''buy'' \<and> usd_10_02 = ask (stored after_B2 (symbol trade_B))
   \<or> \<not> buy_signal 500 (stored after_B2 (symbol trade_B)) Position_init trade_B
     \<and> sell_signal (stored after_B2 (symbol trade_B)) Position_init trade_B
     \<and> ''buy'' = ''sell'' \<and> usd_10_02 = bid (stored after_B2 (symbol trade_B))"
  "buy_signal 500 (stored after_B2 (symbol trade_A)) Position_init trade_A
     \<and> ''buy'' = ''buy'' \<and> usd_10_02 = ask (stored after_B2 (symbol trade_A))
   \<or> \<not> buy_signal 500 (stored after_B2 (symbol trade_A)) Position_init trade_A
     \<and> sell_signal (stored after_B2 (symbol trade_A)) Position_init trade_A
     \<and> ''buy'' = ''sell'' \<and> usd_10_02 = bid (stored after_B2 (symbol trade_A))"
  by (simp_all add: stored_after_B2 trade_B_def trade_A_def buy_signal_def Position_init_def)

lemma gw_answers:
  "submit_order gw_ok smb 100 sd lp = Inr ''o1''"
  "cancel_order gw_ok oid = Inr ()"
  "submit_order gw_cancel_fails smb 100 sd lp = Inr ''o1''"
  "cancel_order gw_cancel_fails oid = Inl (APIError ''order is not cancelable'')"
  by (simp_all add: gw_ok_def gw_cancel_fails_def)




section \<open>The flag of one symbol and the orders of another\<close>

text \<open>
  C1 asks that a symbol's flag goes from eligible to not eligible only after an order for
  that symbol. In the session B is eligible after its second quote. The trade print for
  A is then followed with an order for A, both calls accepted, and after it B is not
  eligible; no order for B was sent.
\<close>

theorem order_for_A_disarms_B:
  "eligible (stored after_B2 ''B'')
   \<and> snd (on_trade 500 gw_ok (after_B2, Position_init) trade_A) =
       [SubmitOrder ''A'' 100 ''buy'' usd_10_02, CancelOrder ''o1'',
        PrintBuy ''A'' usd_10_02]
   \<and> \<not> eligible (stored (fst (fst (on_trade 500 gw_ok (after_B2, Position_init) trade_A)))
                    ''B'')"
  using on_trade_accepted(1) [OF gate_open_after_B2(4-6) buy_signal_after_B2(2)
      gw_answers(1,2)]
    on_trade_accepted(3) [OF gate_open_after_B2(4-6) buy_signal_after_B2(2)
      gw_answers(1,2) shared_after_B2, where s = "''B''"]
  by (simp add: eligible_def stored_after_B2 trade_A_def)

text \<open>
  On the dictionary of the symbol of the event itself the flag moves in two ways only: a quote
  clears it only on a level change that leaves the previous spread at 0.01 and never sets
  it; a trade print sets it only after an order whose submission and cancel were both
  accepted and never clears it.
\<close>

lemma update_clears_traded:
  assumes "traded (stored q (symbol data))"
    and "\<not> traded (stored (fst (update q data)) (symbol data))"
  shows "snd (update q data) \<noteq> []
         \<and> prev_spread (stored (fst (update q data)) (symbol data)) = float_of (1 / 100)"
proof -
  obtain r q1 where g: "get_symbol_dict q (symbol data) = (r, q1)"
    by (cases "get_symbol_dict q (symbol data)")
  have out: "snd (update q data) \<noteq> [] \<longleftrightarrow>
               level_change ((stored q (symbol data))\<lparr>bid_size := bidsize data,
                               ask_size := asksize data\<rparr>) data"
    by (simp add: update_via_ref [OF g] stored_get [OF g] Let_def)
  show ?thesis
    using assms unfolding out stored_update
    by (simp add: new_level_def Let_def split: if_splits)
qed

lemma update_keeps_traded_clear:
  assumes "\<not> traded (stored q (symbol data))"
  shows "\<not> traded (stored (fst (update q data)) (symbol data))"
  using assms unfolding stored_update by (simp add: new_level_def Let_def)

lemma on_trade_keeps_traded_set:
  assumes "traded (stored quote (symbol data))"
  shows "traded (stored (fst (fst (on_trade max_shares gw (quote, position) data)))
                   (symbol data))"
  using assms by (simp add: on_trade_gated stored_after_get)

lemma try_order_sets_traded:
  assumes "get_symbol_dict q s = (r, q1)" and "\<not> traded (stored q s)"
    and "traded (stored (fst (fst (try_order gw (q1, position) r s sd lp))) s)"
  shows "\<exists>oid line. snd (try_order gw (q1, position) r s sd lp) =
           [SubmitOrder s 100 sd lp, CancelOrder oid, line]
         \<and> submit_order gw s 100 sd lp = Inr oid \<and> cancel_order gw oid = Inr ()"
proof (cases "submit_order gw s 100 sd lp")
  case (Inl e)
  have "stored q1 s = stored q s"
    using stored_after_get [of q s s] by (simp add: assms(1))
  with assms(2,3) show ?thesis
    by (simp add: try_order_submit_fails [OF Inl])
next
  case (Inr oid)
  have u: "stored q1 s = stored q s"
    using stored_after_get [of q s s] by (simp add: assms(1))
  show ?thesis
  proof (cases "cancel_order gw oid")
    case (Inl e)
    with assms(2,3) u show ?thesis
      by (simp add: try_order_cancel_fails [OF Inr Inl])
  next
    case c: (Inr v)
    show ?thesis
      using Inr c by (simp add: try_order_ok [OF Inr c])
  qed
qed

lemma on_trade_sets_traded:
  assumes "\<not> traded (stored quote (symbol data))"
    and "traded (stored (fst (fst (on_trade max_shares gw (quote, position) data)))
                   (symbol data))"
  shows "\<exists>sd lp oid line. snd (on_trade max_shares gw (quote, position) data) =
           [SubmitOrder (symbol data) 100 sd lp, CancelOrder oid, line]
         \<and> submit_order gw (symbol data) 100 sd lp = Inr oid
         \<and> cancel_order gw oid = Inr ()"
proof -
  obtain r q1 where g: "get_symbol_dict quote (symbol data) = (r, q1)"
    by (cases "get_symbol_dict quote (symbol data)")
  have u: "stored q1 (symbol data) = stored quote (symbol data)"
    using stored_after_get [of quote "symbol data" "symbol data"] by (simp add: g)
  let ?d = "stored quote (symbol data)"
  have "on_trade max_shares gw (quote, position) data =
          try_order gw (q1, position) r (symbol data) ''buy'' (ask ?d)
        \<or> on_trade max_shares gw (quote, position) data =
          try_order gw (q1, position) r (symbol data) ''sell'' (bid ?d)
        \<or> on_trade max_shares gw (quote, position) data = ((q1, position), [])"
    by (simp add: on_trade_stored g Let_def)
  then consider (buy) "on_trade max_shares gw (quote, position) data =
                    try_order gw (q1, position) r (symbol data) ''buy'' (ask ?d)"
    | (sell) "on_trade max_shares gw (quote, position) data =
                    try_order gw (q1, position) r (symbol data) ''sell'' (bid ?d)"
    | (none) "on_trade max_shares gw (quote, position) data = ((q1, position), [])"
    by blast
  then show ?thesis
  proof cases
    case buy
    from try_order_sets_traded [OF g assms(1) assms(2) [unfolded buy]]
    show ?thesis unfolding buy by blast
  next
    case sell
    from try_order_sets_traded [OF g assms(1) assms(2) [unfolded sell]]
    show ?thesis unfolding sell by blast
  next
    case none
    with assms u show ?thesis by simp
  qed
qed

section \<open>\<open>on_trade_updates\<close>\<close>

lemma on_trade_updates_fill:
  assumes "event u = ''fill''" and "orders_filled_amount p (order_id u) = Some old"
  shows "on_trade_updates p u =
           Inr (p\<lparr>total_shares :=
                     (if side u = ''buy'' then total_shares p + filled_qty u
                      else total_shares p - filled_qty u),
                   pending_buy_shares :=
                     (if side u = ''buy'' then pending_buy_shares p - (100 - old)
                      else pending_buy_shares p),
                   pending_sell_shares :=
                     (if side u = ''buy'' then pending_sell_shares p
                      else pending_sell_shares p - (100 - old)),
                   orders_filled_amount := (orders_filled_amount p)(order_id u := None)\<rparr>)"
  using assms
  by (simp add: on_trade_updates_def remove_pending_order_def update_total_shares_def
        update_pending_buy_shares_def update_pending_sell_shares_def Let_def)

lemma on_trade_updates_terminal:
  assumes "event u = ''canceled'' \<or> event u = ''rejected''"
    and "orders_filled_amount p (order_id u) = Some old"
  shows "on_trade_updates p u =
           Inr (p\<lparr>pending_buy_shares :=
                     (if side u = ''buy'' then pending_buy_shares p - (100 - old)
                      else pending_buy_shares p),
                   pending_sell_shares :=
                     (if side u = ''buy'' then pending_sell_shares p
                      else pending_sell_shares p - (100 - old)),
                   orders_filled_amount := (orders_filled_amount p)(order_id u := None)\<rparr>)"
  using assms
  by (auto simp: on_trade_updates_def remove_pending_order_def
        update_pending_buy_shares_def update_pending_sell_shares_def Let_def)

lemma on_trade_updates_partial:
  assumes "event u = ''partial_fill''" and "orders_filled_amount p (order_id u) = Some old"
  shows "on_trade_updates p u =
           Inr (if old < filled_qty u then
                  p\<lparr>total_shares :=
                      (if side u = ''buy'' then total_shares p + (filled_qty u - old)
                       else total_shares p - (filled_qty u - old)),
                    pending_buy_shares :=
                      (if side u = ''buy'' then pending_buy_shares p - (filled_qty u - old)
                       else pending_buy_shares p),
                    pending_sell_shares :=
                      (if side u = ''buy'' then pending_sell_shares p
                       else pending_sell_shares p - (filled_qty u - old)),
                    orders_filled_amount :=
                      (orders_filled_amount p)(order_id u \<mapsto> filled_qty u)\<rparr>
                else p)"
  using assms
  by (simp add: on_trade_updates_def update_filled_amount_def update_total_shares_def
        update_pending_buy_shares_def update_pending_sell_shares_def Let_def)

lemma on_trade_updates_unknown:
  assumes "orders_filled_amount p (order_id u) = None"
    and "event u = ''fill'' \<or> event u = ''partial_fill'' \<or> event u = ''canceled''
         \<or> event u = ''rejected''"
  shows "on_trade_updates p u =
           Inl (KeyError (order_id u),
                if event u = ''fill'' then
                  p\<lparr>total_shares :=
                      (if side u = ''buy'' then total_shares p + filled_qty u
                       else total_shares p - filled_qty u)\<rparr>
                else p)"
  using assms
  by (auto simp: on_trade_updates_def remove_pending_order_def update_filled_amount_def
        update_total_shares_def Let_def)

lemma on_trade_updates_all_append:
  "on_trade_updates_all p (us @ vs) =
     (case on_trade_updates_all p us of
        Inl e \<Rightarrow> Inl e
      | Inr p' \<Rightarrow> on_trade_updates_all p' vs)"
  by (induction us arbitrary: p) (simp_all split: sum.splits)

text \<open>
  While partial fills of one order come in, the shares still pending for it and the
  shares recorded as filled add up to the same number.
\<close>

lemma partial_fills_keep_sum:
  assumes "\<forall>u \<in> set pfs. event u = ''partial_fill'' \<and> order_id u = oid \<and> side u = sd"
    and "orders_filled_amount p oid = Some a"
  shows "\<exists>p' b. on_trade_updates_all p pfs = Inr p'
           \<and> orders_filled_amount p' oid = Some b
           \<and> (if sd = ''buy''
              then pending_buy_shares p' + b = pending_buy_shares p + a
                   \<and> pending_sell_shares p' = pending_sell_shares p
              else pending_sell_shares p' + b = pending_sell_shares p + a
                   \<and> pending_buy_shares p' = pending_buy_shares p)"
  using assms
proof (induction pfs arbitrary: p a)
  case Nil
  then show ?case by simp
next
  case (Cons u us)
  have u: "event u = ''partial_fill''" "orders_filled_amount p (order_id u) = Some a"
    "order_id u = oid" "side u = sd"
    using Cons.prems by simp_all
  define p1 where "p1 = position_after (on_trade_updates p u)"
  have s: "on_trade_updates p u = Inr p1"
    unfolding p1_def on_trade_updates_partial [OF u(1,2)] by simp
  have "\<exists>a1. orders_filled_amount p1 oid = Some a1
            \<and> (if sd = ''buy''
               then pending_buy_shares p1 + a1 = pending_buy_shares p + a
                    \<and> pending_sell_shares p1 = pending_sell_shares p
               else pending_sell_shares p1 + a1 = pending_sell_shares p + a
                    \<and> pending_buy_shares p1 = pending_buy_shares p)"
  proof (cases "a < filled_qty u")
    case True
    then have "p1 = p\<lparr>total_shares :=
                      (if side u = ''buy'' then total_shares p + (filled_qty u - a)
                       else total_shares p - (filled_qty u - a)),
                    pending_buy_shares :=
                      (if side u = ''buy'' then pending_buy_shares p - (filled_qty u - a)
                       else pending_buy_shares p),
                    pending_sell_shares :=
                      (if side u = ''buy'' then pending_sell_shares p
                       else pending_sell_shares p - (filled_qty u - a)),
                    orders_filled_amount :=
                      (orders_filled_amount p)(order_id u \<mapsto> filled_qty u)\<rparr>"
      unfolding p1_def on_trade_updates_partial [OF u(1,2)] by simp
    then show ?thesis using u(3,4) by simp
  next
    case False
    then have "p1 = p"
      unfolding p1_def on_trade_updates_partial [OF u(1,2)] by simp
    then show ?thesis using u(2,3) by simp
  qed
  then obtain a1 where a1: "orders_filled_amount p1 oid = Some a1"
    and k: "if sd = ''buy''
            then pending_buy_shares p1 + a1 = pending_buy_shares p + a
                 \<and> pending_sell_shares p1 = pending_sell_shares p
            else pending_sell_shares p1 + a1 = pending_sell_shares p + a
                 \<and> pending_buy_shares p1 = pending_buy_shares p"
    by blast
  have "\<forall>u \<in> set us. event u = ''partial_fill'' \<and> order_id u = oid \<and> side u = sd"
    using Cons.prems(1) by simp
  from Cons.IH [OF this a1] obtain p' b where
    r: "on_trade_updates_all p1 us = Inr p'" "orders_filled_amount p' oid = Some b"
      "if sd = ''buy''
       then pending_buy_shares p' + b = pending_buy_shares p1 + a1
            \<and> pending_sell_shares p' = pending_sell_shares p1
       else pending_sell_shares p' + b = pending_sell_shares p1 + a1
            \<and> pending_buy_shares p' = pending_buy_shares p1"
    by blast
  show ?case
    using r k by (auto simp: s split: if_splits)
qed

lemma submitted_eq:
  "submitted =
     \<lparr>orders_filled_amount = [''o1'' \<mapsto> 0], pending_buy_shares = 100,
      pending_sell_shares = 0, total_shares = 0\<rparr>"
  unfolding submitted_def
    on_trade_accepted(4) [OF gate_open_after_B2(1-3) buy_signal_after_B2(1) gw_answers(1,2)]
  by (simp add: update_pending_buy_shares_def Position_init_def)

lemma partly_filled_eq:
  "partly_filled =
     \<lparr>orders_filled_amount = [''o1'' \<mapsto> 40], pending_buy_shares = 60,
      pending_sell_shares = 0, total_shares = 40\<rparr>"
proof -
  have "event partial_40 = ''partial_fill''"
    and "orders_filled_amount submitted (order_id partial_40) = Some 0"
    by (simp_all add: partial_40_def submitted_eq)
  from on_trade_updates_partial [OF this] show ?thesis
    by (simp add: partly_filled_def) (simp add: partial_40_def submitted_eq)
qed

section \<open>A fill\<close>

text \<open>
  C7, as amended. For an update with event \<open>fill\<close> on a registered order, whose recorded
  filled amount is \<open>old\<close>: the handler returns; \<open>total_shares\<close> grows by \<open>filled_qty\<close> if
  the side is buy and shrinks by it otherwise; the pending counter of the order's side
  loses what is still pending for the order, 100 minus \<open>old\<close> (the full 100 only when no
  partial fill was recorded), and the other counter is untouched; the order's entry is
  deleted.
\<close>

theorem fill_registered:
  assumes "event u = ''fill''" and "orders_filled_amount p (order_id u) = Some old"
  shows "on_trade_updates p u = Inr (position_after (on_trade_updates p u))
         \<and> total_shares (position_after (on_trade_updates p u)) =
             (if side u = ''buy'' then total_shares p + filled_qty u
              else total_shares p - filled_qty u)
         \<and> pending_buy_shares (position_after (on_trade_updates p u)) =
             (if side u = ''buy'' then pending_buy_shares p - (100 - old)
              else pending_buy_shares p)
         \<and> pending_sell_shares (position_after (on_trade_updates p u)) =
             (if side u = ''buy'' then pending_sell_shares p
              else pending_sell_shares p - (100 - old))
         \<and> orders_filled_amount (position_after (on_trade_updates p u)) =
             (orders_filled_amount p)(order_id u := None)"
  unfolding on_trade_updates_fill [OF assms] by simp

theorem fill_registered_witness:
  "on_trade_updates submitted fill_100 =
     Inr \<lparr>orders_filled_amount = Map.empty, pending_buy_shares = 0,
          pending_sell_shares = 0, total_shares = 100\<rparr>"
proof -
  have h: "event fill_100 = ''fill''"
    "orders_filled_amount submitted (order_id fill_100) = Some 0"
    by (simp_all add: fill_100_def submitted_eq)
  define p' where "p' = position_after (on_trade_updates submitted fill_100)"
  have "on_trade_updates submitted fill_100 = Inr p'"
    and "total_shares p' = 100" and "pending_buy_shares p' = 0"
    and "pending_sell_shares p' = 0" and "orders_filled_amount p' = Map.empty"
    using fill_registered [OF h] unfolding p'_def
    by (simp_all add: fill_100_def submitted_eq)
  then show ?thesis by simp
qed

text \<open>
  C7 as it is written takes exactly 100 off the pending counter. After the partial fill
  of 40 shares the order for B has 60 shares pending, and its fill takes off those 60.
\<close>

theorem fill_after_partial_counterexample:
  "orders_filled_amount partly_filled ''o1'' = Some 40
   \<and> pending_buy_shares partly_filled = 60
   \<and> pending_buy_shares (position_after (on_trade_updates partly_filled fill_100)) = 0
   \<and> pending_buy_shares (position_after (on_trade_updates partly_filled fill_100))
       \<noteq> pending_buy_shares partly_filled - 100"
proof -
  have h: "event fill_100 = ''fill''"
    "orders_filled_amount partly_filled (order_id fill_100) = Some 40"
    by (simp_all add: fill_100_def partly_filled_eq)
  show ?thesis
    unfolding on_trade_updates_fill [OF h]
    by (simp add: fill_100_def partly_filled_eq)
qed

section \<open>A partial fill\<close>

text \<open>
  C8. For an update with event \<open>partial_fill\<close> on a registered order, whose recorded
  filled amount is \<open>old\<close>, let delta be \<open>filled_qty\<close> minus \<open>old\<close>. If delta is positive,
  the pending counter of the order's side loses delta shares and \<open>total_shares\<close> gains
  them for a buy and loses them otherwise, the other counter is untouched, and the
  recorded amount becomes \<open>filled_qty\<close>. If delta is not positive the position is
  unchanged. So for a buy order with less than 40 shares recorded, a second partial fill
  of 40 after a first changes nothing, and a partial fill of 70 after one of 40 adds 30
  to \<open>total_shares\<close>.
\<close>

theorem partial_fill_registered:
  assumes "event u = ''partial_fill''" and "orders_filled_amount p (order_id u) = Some old"
  shows "on_trade_updates p u = Inr (position_after (on_trade_updates p u))
         \<and> (0 < filled_qty u - old \<longrightarrow>
              total_shares (position_after (on_trade_updates p u)) =
                (if side u = ''buy'' then total_shares p + (filled_qty u - old)
                 else total_shares p - (filled_qty u - old))
              \<and> pending_buy_shares (position_after (on_trade_updates p u)) =
                (if side u = ''buy'' then pending_buy_shares p - (filled_qty u - old)
                 else pending_buy_shares p)
              \<and> pending_sell_shares (position_after (on_trade_updates p u)) =
                (if side u = ''buy'' then pending_sell_shares p
                 else pending_sell_shares p - (filled_qty u - old))
              \<and> orders_filled_amount (position_after (on_trade_updates p u)) =
                (orders_filled_amount p)(order_id u \<mapsto> filled_qty u))
         \<and> (filled_qty u - old \<le> 0 \<longrightarrow> on_trade_updates p u = Inr p)
         \<and> (old < 40 \<and> side u = ''buy'' \<longrightarrow>
              on_trade_updates_all p [u\<lparr>filled_qty := 40\<rparr>, u\<lparr>filled_qty := 40\<rparr>] =
                on_trade_updates p (u\<lparr>filled_qty := 40\<rparr>)
              \<and> total_shares (position_after
                   (on_trade_updates_all p [u\<lparr>filled_qty := 40\<rparr>, u\<lparr>filled_qty := 70\<rparr>])) =
                 total_shares (position_after (on_trade_updates p (u\<lparr>filled_qty := 40\<rparr>)))
                   + 30)"
proof (intro conjI impI)
  show "on_trade_updates p u = Inr (position_after (on_trade_updates p u))"
    unfolding on_trade_updates_partial [OF assms] by simp
  show "on_trade_updates p u = Inr p" if "filled_qty u - old \<le> 0"
    unfolding on_trade_updates_partial [OF assms] using that by simp
next
  assume d: "0 < filled_qty u - old"
  then have p': "position_after (on_trade_updates p u) =
      p\<lparr>total_shares :=
          (if side u = ''buy'' then total_shares p + (filled_qty u - old)
           else total_shares p - (filled_qty u - old)),
        pending_buy_shares :=
          (if side u = ''buy'' then pending_buy_shares p - (filled_qty u - old)
           else pending_buy_shares p),
        pending_sell_shares :=
          (if side u = ''buy'' then pending_sell_shares p
           else pending_sell_shares p - (filled_qty u - old)),
        orders_filled_amount := (orders_filled_amount p)(order_id u \<mapsto> filled_qty u)\<rparr>"
    unfolding on_trade_updates_partial [OF assms] by simp
  show "total_shares (position_after (on_trade_updates p u)) =
                (if side u = ''buy'' then total_shares p + (filled_qty u - old)
                 else total_shares p - (filled_qty u - old))"
    and "pending_buy_shares (position_after (on_trade_updates p u)) =
                (if side u = ''buy'' then pending_buy_shares p - (filled_qty u - old)
                 else pending_buy_shares p)"
    and "pending_sell_shares (position_after (on_trade_updates p u)) =
                (if side u = ''buy'' then pending_sell_shares p
                 else pending_sell_shares p - (filled_qty u - old))"
    and "orders_filled_amount (position_after (on_trade_updates p u)) =
                (orders_filled_amount p)(order_id u \<mapsto> filled_qty u)"
    unfolding p' by simp_all
next
  assume b: "old < 40 \<and> side u = ''buy''"
  let ?u40 = "u\<lparr>filled_qty := 40\<rparr>" and ?u70 = "u\<lparr>filled_qty := 70\<rparr>"
  define p1 where "p1 =
      p\<lparr>total_shares := total_shares p + (40 - old),
        pending_buy_shares := pending_buy_shares p - (40 - old),
        pending_sell_shares := pending_sell_shares p,
        orders_filled_amount := (orders_filled_amount p)(order_id u \<mapsto> 40)\<rparr>"
  have e: "event ?u40 = ''partial_fill''" "event ?u70 = ''partial_fill''"
    and o: "orders_filled_amount p (order_id ?u40) = Some old"
    using assms by simp_all
  have 1: "on_trade_updates p ?u40 = Inr p1"
    unfolding on_trade_updates_partial [OF e(1) o] using b by (simp add: p1_def)
  have o1: "orders_filled_amount p1 (order_id ?u40) = Some 40"
    "orders_filled_amount p1 (order_id ?u70) = Some 40"
    by (simp_all add: p1_def)
  have 2: "on_trade_updates p1 ?u40 = Inr p1"
    unfolding on_trade_updates_partial [OF e(1) o1(1)] by simp
  have 3: "total_shares (position_after (on_trade_updates p1 ?u70)) = total_shares p1 + 30"
    unfolding on_trade_updates_partial [OF e(2) o1(2)] using b by simp
  show "on_trade_updates_all p [?u40, ?u40] = on_trade_updates p ?u40"
    by (simp add: 1 2)
  show "total_shares (position_after (on_trade_updates_all p [?u40, ?u70])) =
          total_shares (position_after (on_trade_updates p ?u40)) + 30"
  proof -
    have "on_trade_updates_all p [?u40, ?u70] = on_trade_updates p1 ?u70"
      by (simp add: 1 split: sum.splits)
    then show ?thesis by (simp add: 3 1)
  qed
qed

theorem partial_fill_registered_witness:
  "on_trade_updates submitted partial_40 =
     Inr \<lparr>orders_filled_amount = [''o1'' \<mapsto> 40], pending_buy_shares = 60,
          pending_sell_shares = 0, total_shares = 40\<rparr>
   \<and> on_trade_updates partly_filled partial_40 = Inr partly_filled
   \<and> on_trade_updates_all submitted [partial_40, partial_40] =
       on_trade_updates submitted partial_40
   \<and> total_shares (position_after (on_trade_updates_all submitted [partial_40, partial_70]))
       = 70"
proof -
  have h: "event partial_40 = ''partial_fill''"
    "orders_filled_amount submitted (order_id partial_40) = Some 0"
    "orders_filled_amount partly_filled (order_id partial_40) = Some 40"
    by (simp_all add: partial_40_def submitted_eq partly_filled_eq)
  have u: "partial_40\<lparr>filled_qty := 40\<rparr> = partial_40"
    "partial_40\<lparr>filled_qty := 70\<rparr> = partial_70"
    by (simp_all add: partial_40_def partial_70_def)
  define p' where "p' = position_after (on_trade_updates submitted partial_40)"
  have a: "on_trade_updates submitted partial_40 = Inr p'"
    and "total_shares p' = 40" and "pending_buy_shares p' = 60"
    and "pending_sell_shares p' = 0" and "orders_filled_amount p' = [''o1'' \<mapsto> 40]"
    and c: "on_trade_updates_all submitted [partial_40, partial_40] =
              on_trade_updates submitted partial_40"
    and d: "total_shares (position_after
              (on_trade_updates_all submitted [partial_40, partial_70])) = total_shares p' + 30"
    using partial_fill_registered [OF h(1,2)] unfolding p'_def u
    by (simp_all add: partial_40_def submitted_eq)
  then have 1: "on_trade_updates submitted partial_40 =
     Inr \<lparr>orders_filled_amount = [''o1'' \<mapsto> 40], pending_buy_shares = 60,
          pending_sell_shares = 0, total_shares = 40\<rparr>"
    by simp
  have 2: "on_trade_updates partly_filled partial_40 = Inr partly_filled"
    using partial_fill_registered [OF h(1,3)] by (simp add: partial_40_def)
  show ?thesis
    using 1 2 c d \<open>total_shares p' = 40\<close> by simp
qed

section \<open>An update for an unknown order\<close>

text \<open>
  C9, as amended. An update with event \<open>fill\<close>, \<open>partial_fill\<close>, \<open>canceled\<close> or
  \<open>rejected\<close> whose order id is not a key of \<open>orders_filled_amount\<close> ends the handler
  with \<open>KeyError\<close> for that id: it is never a silent no-op and never a normal return. The
  entries of all orders and both pending counters are as before the update, and an update
  with \<open>partial_fill\<close>, \<open>canceled\<close> or \<open>rejected\<close> leaves the whole position as it was.
\<close>

theorem unknown_order_raises:
  assumes "orders_filled_amount p (order_id u) = None"
    and "event u = ''fill'' \<or> event u = ''partial_fill'' \<or> event u = ''canceled''
         \<or> event u = ''rejected''"
  shows "on_trade_updates p u =
           Inl (KeyError (order_id u), position_after (on_trade_updates p u))
         \<and> orders_filled_amount (position_after (on_trade_updates p u)) =
             orders_filled_amount p
         \<and> pending_buy_shares (position_after (on_trade_updates p u)) = pending_buy_shares p
         \<and> pending_sell_shares (position_after (on_trade_updates p u)) =
             pending_sell_shares p
         \<and> (event u \<noteq> ''fill'' \<longrightarrow> position_after (on_trade_updates p u) = p)"
  unfolding on_trade_updates_unknown [OF assms] by simp

theorem unknown_order_raises_witness:
  "on_trade_updates submitted fill_unknown =
     Inl (KeyError ''o9'', position_after (on_trade_updates submitted fill_unknown))
   \<and> orders_filled_amount (position_after (on_trade_updates submitted fill_unknown)) =
       [''o1'' \<mapsto> 0]
   \<and> pending_buy_shares (position_after (on_trade_updates submitted fill_unknown)) = 100
   \<and> on_trade_updates submitted (fill_unknown\<lparr>event := ''canceled''\<rparr>) =
       Inl (KeyError ''o9'', submitted)"
proof -
  have h: "orders_filled_amount submitted (order_id fill_unknown) = None"
    "event fill_unknown = ''fill'' \<or> event fill_unknown = ''partial_fill''
     \<or> event fill_unknown = ''canceled'' \<or> event fill_unknown = ''rejected''"
    by (simp_all add: submitted_eq fill_unknown_def)
  let ?c = "fill_unknown\<lparr>event := ''canceled''\<rparr>"
  have c: "orders_filled_amount submitted (order_id ?c) = None"
    "event ?c = ''fill'' \<or> event ?c = ''partial_fill''
     \<or> event ?c = ''canceled'' \<or> event ?c = ''rejected''"
    by (simp_all add: submitted_eq fill_unknown_def)
  define p' where "p' = position_after (on_trade_updates submitted fill_unknown)"
  note t = unknown_order_raises [OF h, folded p'_def]
  have 1: "on_trade_updates submitted fill_unknown = Inl (KeyError ''o9'', p')"
    using t [THEN conjunct1] by (simp add: fill_unknown_def)
  have 2: "orders_filled_amount p' = [''o1'' \<mapsto> 0]" "pending_buy_shares p' = 100"
    using t by (simp_all add: submitted_eq)
  define p'' where "p'' = position_after (on_trade_updates submitted ?c)"
  note t' = unknown_order_raises [OF c, folded p''_def]
  have "p'' = submitted"
    using t' by simp
  with t' [THEN conjunct1] have 3: "on_trade_updates submitted ?c = Inl (KeyError ''o9'', submitted)"
    by (simp add: fill_unknown_def)
  show ?thesis using 1 2 3 unfolding p'_def by simp
qed

text \<open>
  C9 as it is written confines the failure to the update that fails. With the order
  \<open>o1\<close> for B registered, a fill for the unknown order \<open>o9\<close> raises \<open>KeyError\<close> after its
  100 shares have been added to \<open>total_shares\<close>; the position is not what it was, and the
  fill of \<open>o1\<close> that is handled next ends at 200 shares where it would have ended at 100.
\<close>

theorem unknown_fill_counterexample:
  "on_trade_updates submitted fill_unknown =
     Inl (KeyError ''o9'', submitted\<lparr>total_shares := 100\<rparr>)
   \<and> position_after (on_trade_updates submitted fill_unknown) \<noteq> submitted
   \<and> total_shares (position_after (on_trade_updates submitted fill_100)) = 100
   \<and> total_shares (position_after (on_trade_updates
        (position_after (on_trade_updates submitted fill_unknown)) fill_100)) = 200"
proof -
  have h: "orders_filled_amount submitted (order_id fill_unknown) = None"
    "event fill_unknown = ''fill'' \<or> event fill_unknown = ''partial_fill''
     \<or> event fill_unknown = ''canceled'' \<or> event fill_unknown = ''rejected''"
    by (simp_all add: submitted_eq fill_unknown_def)
  have 1: "on_trade_updates submitted fill_unknown =
             Inl (KeyError ''o9'', submitted\<lparr>total_shares := 100\<rparr>)"
    unfolding on_trade_updates_unknown [OF h]
    by (simp add: fill_unknown_def submitted_eq)
  have 2: "submitted\<lparr>total_shares := 100\<rparr> \<noteq> submitted"
    by (simp add: submitted_eq)
  have f: "event fill_100 = ''fill''"
    "orders_filled_amount submitted (order_id fill_100) = Some 0"
    "orders_filled_amount (submitted\<lparr>total_shares := 100\<rparr>) (order_id fill_100) = Some 0"
    by (simp_all add: fill_100_def submitted_eq)
  have 3: "total_shares (position_after (on_trade_updates submitted fill_100)) = 100"
    unfolding on_trade_updates_fill [OF f(1,2)] by (simp add: fill_100_def submitted_eq)
  have 4: "total_shares (position_after
             (on_trade_updates (submitted\<lparr>total_shares := 100\<rparr>) fill_100)) = 200"
    unfolding on_trade_updates_fill [OF f(1,3)] by (simp add: fill_100_def)
  show ?thesis using 2 3 4 by (simp add: 1)
qed

section \<open>The pending counters over the life of an order\<close>

text \<open>
  C10. Take a trade print that is followed with an order, both calls accepted: the order
  is registered with 0 shares filled and the pending counter of its side goes up by 100.
  Let then any partial fills of that order be handled, one after the other, and after
  them one fill, cancel or reject of it. No handler raises, the order's entry is gone,
  and both pending counters are what they were before the order was sent. The partial
  fills need not be ordered or bounded for this.
\<close>

theorem pending_conserved:
  assumes "\<not> traded (stored quote (symbol data))"
    and "time (stored quote (symbol data)) + timedelta_50ms < timestamp data"
    and "100 \<le> trade_size data"
    and "(buy_signal max_shares (stored quote (symbol data)) position data
            \<and> sd = ''buy'' \<and> lp = ask (stored quote (symbol data)))
         \<or> (\<not> buy_signal max_shares (stored quote (symbol data)) position data
            \<and> sell_signal (stored quote (symbol data)) position data
            \<and> sd = ''sell'' \<and> lp = bid (stored quote (symbol data)))"
    and "submit_order gw (symbol data) 100 sd lp = Inr oid"
    and "cancel_order gw oid = Inr ok"
    and "\<forall>u \<in> set pfs. event u = ''partial_fill'' \<and> order_id u = oid \<and> side u = sd"
    and "event t = ''fill'' \<or> event t = ''canceled'' \<or> event t = ''rejected''"
    and "order_id t = oid" and "side t = sd"
  shows "orders_filled_amount (snd (fst (on_trade max_shares gw (quote, position) data))) oid
           = Some 0
         \<and> pending_buy_shares (snd (fst (on_trade max_shares gw (quote, position) data))) =
             (if sd = ''buy'' then pending_buy_shares position + 100
              else pending_buy_shares position)
         \<and> pending_sell_shares (snd (fst (on_trade max_shares gw (quote, position) data))) =
             (if sd = ''buy'' then pending_sell_shares position
              else pending_sell_shares position + 100)
         \<and> (\<exists>p'. on_trade_updates_all
                    (snd (fst (on_trade max_shares gw (quote, position) data))) (pfs @ [t])
                    = Inr p'
                \<and> pending_buy_shares p' = pending_buy_shares position
                \<and> pending_sell_shares p' = pending_sell_shares position
                \<and> orders_filled_amount p' oid = None)"
proof -
  define p0 where "p0 = snd (fst (on_trade max_shares gw (quote, position) data))"
  have p0: "p0 = (if sd = ''buy'' then update_pending_buy_shares position 100
                  else update_pending_sell_shares position 100)
                   \<lparr>orders_filled_amount := (orders_filled_amount position)(oid \<mapsto> 0)\<rparr>"
    unfolding p0_def by (rule on_trade_accepted(4) [OF assms(1-6)])
  have r: "orders_filled_amount p0 oid = Some 0"
    and b: "pending_buy_shares p0 =
              (if sd = ''buy'' then pending_buy_shares position + 100
               else pending_buy_shares position)"
    and s: "pending_sell_shares p0 =
              (if sd = ''buy'' then pending_sell_shares position
               else pending_sell_shares position + 100)"
    by (simp_all add: p0 update_pending_buy_shares_def update_pending_sell_shares_def)
  from partial_fills_keep_sum [OF assms(7) r] obtain p1 f where
    p1: "on_trade_updates_all p0 pfs = Inr p1" "orders_filled_amount p1 oid = Some f"
      "if sd = ''buy''
       then pending_buy_shares p1 + f = pending_buy_shares p0 + 0
            \<and> pending_sell_shares p1 = pending_sell_shares p0
       else pending_sell_shares p1 + f = pending_sell_shares p0 + 0
            \<and> pending_buy_shares p1 = pending_buy_shares p0"
    by blast
  have f: "orders_filled_amount p1 (order_id t) = Some f"
    using p1(2) assms(9) by simp
  define p2 where "p2 = position_after (on_trade_updates p1 t)"
  have p2: "on_trade_updates p1 t = Inr p2"
    and pb: "pending_buy_shares p2 =
               (if side t = ''buy'' then pending_buy_shares p1 - (100 - f)
                else pending_buy_shares p1)"
    and ps: "pending_sell_shares p2 =
               (if side t = ''buy'' then pending_sell_shares p1
                else pending_sell_shares p1 - (100 - f))"
    and po: "orders_filled_amount p2 oid = None"
  proof -
    consider "event t = ''fill''" | "event t = ''canceled'' \<or> event t = ''rejected''"
      using assms(8) by blast
    then have "on_trade_updates p1 t = Inr p2
         \<and> pending_buy_shares p2 =
               (if side t = ''buy'' then pending_buy_shares p1 - (100 - f)
                else pending_buy_shares p1)
         \<and> pending_sell_shares p2 =
               (if side t = ''buy'' then pending_sell_shares p1
                else pending_sell_shares p1 - (100 - f))
         \<and> orders_filled_amount p2 oid = None"
    proof cases
      case 1
      show ?thesis
        unfolding p2_def on_trade_updates_fill [OF 1 f] using assms(9) by simp
    next
      case 2
      show ?thesis
        unfolding p2_def on_trade_updates_terminal [OF 2 f] using assms(9) by simp
    qed
    then show "on_trade_updates p1 t = Inr p2"
      and "pending_buy_shares p2 =
               (if side t = ''buy'' then pending_buy_shares p1 - (100 - f)
                else pending_buy_shares p1)"
      and "pending_sell_shares p2 =
               (if side t = ''buy'' then pending_sell_shares p1
                else pending_sell_shares p1 - (100 - f))"
      and "orders_filled_amount p2 oid = None"
      by simp_all
  qed
  have all: "on_trade_updates_all p0 (pfs @ [t]) = Inr p2"
    by (simp add: on_trade_updates_all_append p1(1) p2)
  have "pending_buy_shares p2 = pending_buy_shares position"
    and "pending_sell_shares p2 = pending_sell_shares position"
    using pb ps p1(3) b s assms(10) by (auto split: if_splits)
  with all po r b s show ?thesis
    unfolding p0_def by blast
qed

theorem pending_conserved_witness:
  "pending_buy_shares submitted = 100
   \<and> (\<exists>p'. on_trade_updates_all submitted ([partial_40, partial_70] @ [fill_100]) = Inr p'
          \<and> pending_buy_shares p' = 0 \<and> pending_sell_shares p' = 0
          \<and> orders_filled_amount p' ''o1'' = None)"
proof -
  have u: "\<forall>u \<in> set [partial_40, partial_70].
             event u = ''partial_fill'' \<and> order_id u = ''o1'' \<and> side u = ''buy''"
    "event fill_100 = ''fill'' \<or> event fill_100 = ''canceled'' \<or> event fill_100 = ''rejected''"
    "order_id fill_100 = ''o1''" "side fill_100 = ''buy''"
    by (simp_all add: partial_40_def partial_70_def fill_100_def)
  show ?thesis
    using pending_conserved [OF gate_open_after_B2(1-3) buy_signal_after_B2(1)
        gw_answers(1,2) u]
    unfolding submitted_def [symmetric]
    by (simp add: Position_init_def)
qed

end
